theory Spec2Isabelle
  imports Complex_Main "HOL-Library.AList" "HOL-Library.Sublist" "HOL-Library.Multiset"
begin

section \<open>Python values, dictionaries and exceptions\<close>

text \<open>
  The pipeline in \<^verbatim>\<open>src/ml\<close> works on lists of dictionaries. A dictionary is an
  association list from string keys to values: \<open>map_of\<close> reads a key, \<open>AList.update\<close>
  writes one (an existing key keeps its position, a new key goes to the end, as in a
  Python \<^verbatim>\<open>dict\<close>). Python's \<^verbatim>\<open>int\<close> and \<^verbatim>\<open>float\<close> are both modelled by \<open>real\<close>:
  rounding, infinities and NaN are outside the model. A value of the wrong type is
  reported as \<open>TypeError\<close> where the source reads it.
\<close>

datatype py_error = KeyError | TypeError | ValueError | IndexError | ZeroDivisionError
  | AttributeError

datatype pyval = Num real | Str string | Flag bool | Dict "(string \<times> pyval) list"

type_synonym pydict = "(string \<times> pyval) list"

definition then_do :: "py_error + 'a \<Rightarrow> ('a \<Rightarrow> py_error + 'b) \<Rightarrow> py_error + 'b" where
  "then_do m f = (case m of Inl e \<Rightarrow> Inl e | Inr x \<Rightarrow> f x)"

text \<open>\<^verbatim>\<open>d[k]\<close> for a numeric and for a string entry.\<close>

definition num_item :: "pydict \<Rightarrow> string \<Rightarrow> py_error + real" where
  "num_item d k = (case map_of d k of None \<Rightarrow> Inl KeyError
                   | Some (Num x) \<Rightarrow> Inr x | Some _ \<Rightarrow> Inl TypeError)"

definition str_item :: "pydict \<Rightarrow> string \<Rightarrow> py_error + string" where
  "str_item d k = (case map_of d k of None \<Rightarrow> Inl KeyError
                   | Some (Str s) \<Rightarrow> Inr s | Some _ \<Rightarrow> Inl TypeError)"

text \<open>\<^verbatim>\<open>d.get(k, default)\<close> for a numeric entry.\<close>

definition num_get :: "pydict \<Rightarrow> string \<Rightarrow> real \<Rightarrow> py_error + real" where
  "num_get d k dflt = (case map_of d k of None \<Rightarrow> Inr dflt
                       | Some (Num x) \<Rightarrow> Inr x | Some _ \<Rightarrow> Inl TypeError)"

text \<open>\<^verbatim>\<open>d.get(k, {})\<close> for an entry that is a dictionary itself.\<close>

definition dict_get :: "pydict \<Rightarrow> string \<Rightarrow> py_error + pydict" where
  "dict_get d k = (case map_of d k of None \<Rightarrow> Inr []
                   | Some (Dict x) \<Rightarrow> Inr x | Some _ \<Rightarrow> Inl AttributeError)"

text \<open>
  Slices \<^verbatim>\<open>xs[:k]\<close> and \<^verbatim>\<open>xs[k:]\<close>: a negative bound counts from the end of the list.
\<close>

definition slice_to :: "int \<Rightarrow> 'a list \<Rightarrow> 'a list" where
  "slice_to k xs = (if 0 \<le> k then take (nat k) xs else take (length xs - nat (- k)) xs)"

definition slice_from :: "int \<Rightarrow> 'a list \<Rightarrow> 'a list" where
  "slice_from k xs = (if 0 \<le> k then drop (nat k) xs else drop (length xs - nat (- k)) xs)"

text \<open>
  \<^verbatim>\<open>sorted(xs, key=f)\<close> is a stable sort. With \<^verbatim>\<open>reverse=True\<close> CPython reverses the
  list, sorts it stably in ascending order and reverses the result.
\<close>

definition sorted_by :: "('a \<Rightarrow> real) \<Rightarrow> 'a list \<Rightarrow> 'a list" where
  "sorted_by f xs = sort_key f xs"

definition sorted_reverse :: "('a \<Rightarrow> real) \<Rightarrow> 'a list \<Rightarrow> 'a list" where
  "sorted_reverse f xs = rev (sort_key f (rev xs))"

text \<open>\<^verbatim>\<open>int(x)\<close> on a float truncates towards zero.\<close>

definition py_int :: "real \<Rightarrow> int" where
  "py_int x = (if 0 \<le> x then \<lfloor>x\<rfloor> else \<lceil>x\<rceil>)"

text \<open>
  \<^verbatim>\<open>xs.sort(key=lambda x: x[k], reverse=...)\<close> on a list of dictionaries. CPython
  computes every key first, so a missing key raises before the list is touched; then it
  sorts the keyed entries.
\<close>

fun num_keys :: "string \<Rightarrow> pydict list \<Rightarrow> py_error + real list" where
  "num_keys k [] = Inr []"
| "num_keys k (x # xs) =
     then_do (num_item x k) (\<lambda>v. then_do (num_keys k xs) (\<lambda>vs. Inr (v # vs)))"

definition sort_on :: "string \<Rightarrow> bool \<Rightarrow> pydict list \<Rightarrow> py_error + pydict list" where
  "sort_on k reverse xs =
     then_do (num_keys k xs) (\<lambda>ks.
       Inr (map snd ((if reverse then sorted_reverse fst else sorted_by fst) (zip ks xs))))"

section \<open>The evaluator (\<^verbatim>\<open>src/ml/evaluation.py\<close>)\<close>

subsection \<open>\<^verbatim>\<open>_calculate_gini_coefficient\<close>\<close>

definition gini_body :: "real list \<Rightarrow> py_error + real" where
  "gini_body vals =
     (if vals = [] \<or> length vals = 1 then Inr 0
      else
        let sorted_values = sort vals;
            n = real (length sorted_values);
            weighted = sum_list (map (\<lambda>(i, y). (n + 1 - real i) * y)
                                     (enumerate 0 sorted_values));
            denom = n * sum_list sorted_values
        in if denom = 0 then Inl ZeroDivisionError
           else Inr ((n + 1 - 2 * weighted) / denom))"

definition calculate_gini_coefficient :: "real list \<Rightarrow> real" where
  "calculate_gini_coefficient vals =
     (case gini_body vals of Inl e \<Rightarrow> 0 | Inr g \<Rightarrow> g)"

subsection \<open>\<^verbatim>\<open>_calculate_ndcg\<close>\<close>

text \<open>
  \<^verbatim>\<open>{gt['item_id']: gt.get('rating', 1) for gt in ground_truth}\<close>: a later entry for
  the same item replaces the rating and keeps the position of the first.
\<close>

fun ground_truth_ids :: "pydict list \<Rightarrow> (string \<times> real) list \<Rightarrow> py_error + (string \<times> real) list" where
  "ground_truth_ids [] acc = Inr acc"
| "ground_truth_ids (gt # rest) acc =
     then_do (str_item gt ''item_id'') (\<lambda>item.
     then_do (num_get gt ''rating'' 1) (\<lambda>rating.
       ground_truth_ids rest (AList.update item rating acc)))"

text \<open>\<^verbatim>\<open>ground_truth_ids.get(item, 0)\<close>.\<close>

definition relevance_of :: "(string \<times> real) list \<Rightarrow> string \<Rightarrow> real" where
  "relevance_of g item = (case map_of g item of None \<Rightarrow> 0 | Some x \<Rightarrow> x)"

fun dcg_loop :: "(string \<times> real) list \<Rightarrow> nat \<Rightarrow> pydict list \<Rightarrow> real \<Rightarrow> py_error + real" where
  "dcg_loop g i [] dcg = Inr dcg"
| "dcg_loop g i (r # recs) dcg =
     then_do (str_item r ''item_id'') (\<lambda>item.
       let relevance = relevance_of g item
       in dcg_loop g (Suc i) recs
            (if relevance > 0 then dcg + relevance / log 2 (real (i + 2)) else dcg))"

definition idcg_sum :: "real list \<Rightarrow> real" where
  "idcg_sum rels = sum_list (map (\<lambda>(i, rel). rel / log 2 (real (i + 2))) (enumerate 0 rels))"

definition ndcg_body :: "pydict list \<Rightarrow> pydict list \<Rightarrow> int \<Rightarrow> py_error + real" where
  "ndcg_body recommendations ground_truth k =
     then_do (ground_truth_ids ground_truth []) (\<lambda>g.
     then_do (dcg_loop g 0 (slice_to k recommendations) 0) (\<lambda>dcg.
       let ideal_relevances = slice_to k (sorted_reverse (\<lambda>x. x) (map snd g));
           idcg = idcg_sum ideal_relevances
       in Inr (if idcg > 0 then dcg / idcg else 0)))"

definition calculate_ndcg :: "pydict list \<Rightarrow> pydict list \<Rightarrow> int \<Rightarrow> real" where
  "calculate_ndcg recommendations ground_truth k =
     (case ndcg_body recommendations ground_truth k of Inl e \<Rightarrow> 0 | Inr v \<Rightarrow> v)"

subsection \<open>\<^verbatim>\<open>_calculate_accuracy_metrics\<close>\<close>

fun item_ids_of :: "pydict list \<Rightarrow> py_error + string list" where
  "item_ids_of [] = Inr []"
| "item_ids_of (r # rs) =
     then_do (str_item r ''item_id'') (\<lambda>item.
     then_do (item_ids_of rs) (\<lambda>items. Inr (item # items)))"

definition accuracy_body :: "pydict list \<Rightarrow> pydict list \<Rightarrow> py_error + pydict" where
  "accuracy_body recommendations ground_truth =
     (if ground_truth = [] then
        Inr [(''precision'', Num 0), (''recall'', Num 0), (''f1'', Num 0), (''ndcg'', Num 0)]
      else
        then_do (item_ids_of recommendations) (\<lambda>rec_ids.
        then_do (item_ids_of ground_truth) (\<lambda>gt_ids.
          let recommended_ids = set rec_ids;
              ground_truth_set = set gt_ids;
              true_positives = card (recommended_ids \<inter> ground_truth_set);
              precision = (if recommended_ids \<noteq> {}
                           then real true_positives / real (card recommended_ids) else 0);
              recall = (if ground_truth_set \<noteq> {}
                        then real true_positives / real (card ground_truth_set) else 0);
              f1 = (if precision + recall > 0
                    then 2 * (precision * recall) / (precision + recall) else 0);
              ndcg = calculate_ndcg recommendations ground_truth 10
          in Inr [(''precision'', Num precision), (''recall'', Num recall), (''f1'', Num f1),
                  (''ndcg'', Num ndcg), (''true_positives'', Num (real true_positives)),
                  (''recommended_count'', Num (real (card recommended_ids))),
                  (''ground_truth_count'', Num (real (card ground_truth_set)))])))"

definition calculate_accuracy_metrics :: "pydict list \<Rightarrow> pydict list \<Rightarrow> pydict" where
  "calculate_accuracy_metrics recommendations ground_truth =
     (case accuracy_body recommendations ground_truth of Inl e \<Rightarrow> [] | Inr d \<Rightarrow> d)"

subsection \<open>\<^verbatim>\<open>_calculate_overall_quality_score\<close>\<close>

definition quality_weights :: pydict where
  "quality_weights = [(''accuracy'', Num 0.3), (''diversity'', Num 0.25), (''novelty'', Num 0.2),
                      (''coverage'', Num 0.15), (''bias_penalty'', Num 0.1)]"

text \<open>\<^verbatim>\<open>evaluation_results.get(part, {}).get(key, 0)\<close>.\<close>

definition nested_get :: "pydict \<Rightarrow> string \<Rightarrow> string \<Rightarrow> py_error + real" where
  "nested_get d part k = then_do (dict_get d part) (\<lambda>sub. num_get sub k 0)"

definition quality_body :: "pydict \<Rightarrow> py_error + pydict" where
  "quality_body evaluation_results =
     then_do (nested_get evaluation_results ''accuracy'' ''f1'') (\<lambda>accuracy_score.
     then_do (nested_get evaluation_results ''diversity'' ''intra_list_diversity'')
       (\<lambda>diversity_score.
     then_do (nested_get evaluation_results ''novelty'' ''combined_novelty'') (\<lambda>novelty_score.
     then_do (nested_get evaluation_results ''coverage'' ''genre_coverage'') (\<lambda>coverage_score.
     then_do (nested_get evaluation_results ''bias'' ''overall_bias_score'') (\<lambda>bias_score.
       let quality_score = accuracy_score * 0.3 + diversity_score * 0.25 + novelty_score * 0.2
                           + coverage_score * 0.15 - bias_score * 0.1;
           clamped = max 0 (min 1 quality_score)
       in Inr [(''overall_score'', Num clamped),
               (''component_scores'',
                  Dict [(''accuracy'', Num accuracy_score), (''diversity'', Num diversity_score),
                        (''novelty'', Num novelty_score), (''coverage'', Num coverage_score),
                        (''bias_penalty'', Num bias_score)]),
               (''weights'', Dict quality_weights)])))))"

definition calculate_overall_quality_score :: "pydict \<Rightarrow> pydict" where
  "calculate_overall_quality_score evaluation_results =
     (case quality_body evaluation_results of Inl e \<Rightarrow> [] | Inr d \<Rightarrow> d)"

section \<open>Debiasing transforms (\<^verbatim>\<open>src/ml/debiasing.py\<close>)\<close>

text \<open>
  Track, artist and user-profile metadata are read-only reference data. They are records
  whose fields are optional, since the source reads every one of them with
  \<^verbatim>\<open>.get(key, default)\<close>; an unknown track is the record with no field set
  (\<^verbatim>\<open>track_metadata.get(item_id, {})\<close>).
\<close>

record track_info =
  ti_artist_id :: "string option"
  ti_popularity :: "real option"
  ti_genres :: "string list option"
  ti_audio :: "(string \<times> real) list"

record artist_info =
  ai_popularity :: "real option"
  ai_genres :: "string list option"

definition no_track :: track_info where
  "no_track = \<lparr>ti_artist_id = None, ti_popularity = None, ti_genres = None, ti_audio = []\<rparr>"

definition no_artist :: artist_info where
  "no_artist = \<lparr>ai_popularity = None, ai_genres = None\<rparr>"

definition lookup_track :: "(string \<times> track_info) list \<Rightarrow> string \<Rightarrow> track_info" where
  "lookup_track track_metadata item = (case map_of track_metadata item of
                                         None \<Rightarrow> no_track | Some t \<Rightarrow> t)"

definition lookup_artist :: "(string \<times> artist_info) list \<Rightarrow> string \<Rightarrow> artist_info" where
  "lookup_artist artist_metadata a = (case map_of artist_metadata a of
                                        None \<Rightarrow> no_artist | Some t \<Rightarrow> t)"

subsection \<open>\<^verbatim>\<open>PopularityDebiaser\<close>\<close>

record popularity_debiaser =
  debiasing_strength :: real
  popularity_stats :: pydict

definition penalty_body :: "pydict \<Rightarrow> real \<Rightarrow> py_error + real" where
  "penalty_body stats popularity =
     then_do (num_item stats ''max'') (\<lambda>mx.
     then_do (num_item stats ''min'') (\<lambda>mn.
       let pop_range = mx - mn;
           normalized_pop = (if pop_range > 0 then (popularity - mn) / pop_range else 0.5)
       in Inr (1 / (1 + exp (- 10 * (normalized_pop - 0.5))))))"

definition calculate_popularity_penalty :: "popularity_debiaser \<Rightarrow> real \<Rightarrow> real" where
  "calculate_popularity_penalty d popularity =
     (case penalty_body (popularity_stats d) popularity of Inl e \<Rightarrow> 0 | Inr p \<Rightarrow> p)"

text \<open>The body of the loop of \<^verbatim>\<open>debias_scores\<close>, for one recommendation.\<close>

definition debias_rec ::
  "popularity_debiaser \<Rightarrow> (string \<times> track_info) list \<Rightarrow> pydict \<Rightarrow> py_error + pydict" where
  "debias_rec d track_metadata r =
     then_do (str_item r ''item_id'') (\<lambda>item.
     then_do (num_item r ''score'') (\<lambda>original_score.
     then_do (num_item (popularity_stats d) ''mean'') (\<lambda>mean.
       let info = lookup_track track_metadata item;
           popularity = (case ti_popularity info of None \<Rightarrow> mean | Some p \<Rightarrow> p);
           popularity_penalty = calculate_popularity_penalty d popularity;
           debiased_score = original_score * (1 - debiasing_strength d * popularity_penalty)
       in Inr (AList.update ''popularity_penalty'' (Num popularity_penalty)
                (AList.update ''original_score'' (Num original_score)
                  (AList.update ''score'' (Num debiased_score) r))))))"

fun debias_loop ::
  "popularity_debiaser \<Rightarrow> (string \<times> track_info) list \<Rightarrow> pydict list \<Rightarrow> py_error + pydict list" where
  "debias_loop d track_metadata [] = Inr []"
| "debias_loop d track_metadata (r # rs) =
     then_do (debias_rec d track_metadata r) (\<lambda>r'.
     then_do (debias_loop d track_metadata rs) (\<lambda>rs'. Inr (r' # rs')))"

definition debias_scores ::
  "popularity_debiaser \<Rightarrow> pydict list \<Rightarrow> (string \<times> track_info) list \<Rightarrow> pydict list" where
  "debias_scores d recommendations track_metadata =
     (case then_do (debias_loop d track_metadata recommendations) (sort_on ''score'' True) of
        Inl e \<Rightarrow> recommendations
      | Inr debiased \<Rightarrow> debiased)"

text \<open>
  Two notions for stating what \<^verbatim>\<open>debias_scores\<close> does. A list is debiasable when the
  loop of \<^verbatim>\<open>debias_scores\<close> raises nothing on it: the debiaser has its \<^verbatim>\<open>mean\<close>
  and every entry has an item id and a score. The debiased entry of \<open>r\<close> is \<open>r\<close> with
  its score \<open>s\<close> replaced by \<open>s * (1 - strength * penalty)\<close>, and with the original
  score and the penalty recorded.
\<close>

definition debiasable :: "popularity_debiaser \<Rightarrow> pydict list \<Rightarrow> bool" where
  "debiasable d recommendations =
     (\<not> isl (num_item (popularity_stats d) ''mean'') \<and>
      list_all (\<lambda>x. \<not> isl (str_item x ''item_id'') \<and> \<not> isl (num_item x ''score''))
        recommendations)"

definition debiased_entry :: "pydict \<Rightarrow> real \<Rightarrow> real \<Rightarrow> real \<Rightarrow> pydict" where
  "debiased_entry r s strength penalty =
     AList.update ''popularity_penalty'' (Num penalty)
       (AList.update ''original_score'' (Num s)
         (AList.update ''score'' (Num (s * (1 - strength * penalty))) r))"

subsection \<open>\<^verbatim>\<open>FairnessConstraintEnforcer\<close>\<close>

record fairness_enforcer =
  min_niche_ratio :: real
  min_diverse_genres :: int
  artist_stats :: "(string \<times> string list) list"

text \<open>\<^verbatim>\<open>self.artist_stats.get(grp, [])\<close>.\<close>

definition artist_group :: "fairness_enforcer \<Rightarrow> string \<Rightarrow> string list" where
  "artist_group fe grp = (case map_of (artist_stats fe) grp of None \<Rightarrow> [] | Some l \<Rightarrow> l)"

text \<open>\<^verbatim>\<open>if artist_id:\<close> holds for a string that is present and not empty.\<close>

definition truthy :: "string option \<Rightarrow> bool" where
  "truthy a = (case a of None \<Rightarrow> False | Some s \<Rightarrow> s \<noteq> [])"

fun collect_current ::
  "(string \<times> track_info) list \<Rightarrow> (string \<times> artist_info) list \<Rightarrow> pydict list
   \<Rightarrow> string list \<Rightarrow> string set \<Rightarrow> py_error + string list \<times> string set" where
  "collect_current tm am [] current_artists current_genres =
     Inr (current_artists, current_genres)"
| "collect_current tm am (r # rs) current_artists current_genres =
     then_do (str_item r ''item_id'') (\<lambda>item.
       let artist_id = ti_artist_id (lookup_track tm item)
       in if truthy artist_id then
            let genres = (case ai_genres (lookup_artist am (the artist_id)) of
                            None \<Rightarrow> [] | Some l \<Rightarrow> l)
            in collect_current tm am rs (current_artists @ [the artist_id])
                 (current_genres \<union> set genres)
          else collect_current tm am rs current_artists current_genres)"

definition check_fairness_violations ::
  "fairness_enforcer \<Rightarrow> string list \<Rightarrow> string set \<Rightarrow> pydict" where
  "check_fairness_violations fe current_artists current_genres =
     (let niche_artists = set current_artists \<inter> set (artist_group fe ''niche'');
          niche_ratio = (if current_artists \<noteq> []
                         then real (card niche_artists) / real (length current_artists) else 0);
          violations = (if niche_ratio < min_niche_ratio fe
                        then [(''insufficient_niche'',
                               Dict [(''current_ratio'', Num niche_ratio),
                                     (''required_ratio'', Num (min_niche_ratio fe)),
                                     (''deficit'', Num (min_niche_ratio fe - niche_ratio))])]
                        else [])
      in if int (card current_genres) < min_diverse_genres fe
         then AList.update ''insufficient_genre_diversity''
                (Dict [(''current_genres'', Num (real (card current_genres))),
                       (''required_genres'', Num (real_of_int (min_diverse_genres fe))),
                       (''deficit'', Num (real_of_int (min_diverse_genres fe)
                                          - real (card current_genres)))])
                violations
         else violations)"

fun mainstream_indices ::
  "fairness_enforcer \<Rightarrow> (string \<times> track_info) list \<Rightarrow> nat \<Rightarrow> pydict list \<Rightarrow> py_error + nat list" where
  "mainstream_indices fe tm i [] = Inr []"
| "mainstream_indices fe tm i (r # rs) =
     then_do (str_item r ''item_id'') (\<lambda>item.
     then_do (mainstream_indices fe tm (Suc i) rs) (\<lambda>rest.
       case ti_artist_id (lookup_track tm item) of
         None \<Rightarrow> Inr rest
       | Some a \<Rightarrow> Inr (if a \<in> set (artist_group fe ''mainstream'') then i # rest else rest)))"

text \<open>\<^verbatim>\<open>corrected_recommendations[i]['needs_niche_replacement'] = True\<close>.\<close>

definition mark_niche :: "nat \<Rightarrow> pydict list \<Rightarrow> pydict list" where
  "mark_niche i xs = xs[i := AList.update ''needs_niche_replacement'' (Flag True) (xs ! i)]"

definition corrections_body ::
  "fairness_enforcer \<Rightarrow> pydict list \<Rightarrow> pydict \<Rightarrow> (string \<times> track_info) list
   \<Rightarrow> py_error + pydict list" where
  "corrections_body fe recommendations violations tm =
     (case map_of violations ''insufficient_niche'' of
        None \<Rightarrow> Inr recommendations
      | Some v \<Rightarrow>
          then_do (case v of Dict vd \<Rightarrow> num_item vd ''deficit'' | _ \<Rightarrow> Inl TypeError) (\<lambda>deficit.
            let items_to_replace = py_int (real (length recommendations) * deficit)
            in then_do (mainstream_indices fe tm 0 recommendations) (\<lambda>idxs.
                 Inr (fold mark_niche (slice_to items_to_replace idxs) recommendations))))"

definition apply_fairness_corrections ::
  "fairness_enforcer \<Rightarrow> pydict list \<Rightarrow> pydict \<Rightarrow> (string \<times> track_info) list \<Rightarrow> pydict list" where
  "apply_fairness_corrections fe recommendations violations tm =
     (case corrections_body fe recommendations violations tm of
        Inl e \<Rightarrow> recommendations | Inr corrected \<Rightarrow> corrected)"

definition enforce_fairness ::
  "fairness_enforcer \<Rightarrow> pydict list \<Rightarrow> (string \<times> track_info) list
   \<Rightarrow> (string \<times> artist_info) list \<Rightarrow> pydict list" where
  "enforce_fairness fe recommendations tm am =
     (case collect_current tm am recommendations [] {} of
        Inl e \<Rightarrow> recommendations
      | Inr (current_artists, current_genres) \<Rightarrow>
          let violations = check_fairness_violations fe current_artists current_genres
          in if violations \<noteq> []
             then apply_fairness_corrections fe recommendations violations tm
             else recommendations)"

subsection \<open>\<^verbatim>\<open>DiversityInjector\<close>\<close>

record user_profile =
  up_preferred_genres :: "(string \<times> nat) list option"
  up_avg_popularity :: "real option"
  up_audio_preferences :: "(string \<times> real \<times> real) list option"

record diversity_injector =
  diversity_strength :: real
  novelty_weight :: real
  user_profiles :: "(string \<times> user_profile) list"

definition audio_features :: "string list" where
  "audio_features = [''danceability'', ''energy'', ''valence'', ''acousticness'']"

fun audio_loop ::
  "track_info \<Rightarrow> (string \<times> real \<times> real) list \<Rightarrow> string list \<Rightarrow> real \<times> nat \<Rightarrow> real \<times> nat" where
  "audio_loop info prefs [] acc = acc"
| "audio_loop info prefs (f # fs) (audio_diversity, audio_count) =
     (case map_of (ti_audio info) f of
        None \<Rightarrow> audio_loop info prefs fs (audio_diversity, audio_count)
      | Some track_value \<Rightarrow>
          (case map_of prefs f of
             None \<Rightarrow> audio_loop info prefs fs (audio_diversity, audio_count)
           | Some (user_mean, user_std) \<Rightarrow>
               audio_loop info prefs fs
                 (audio_diversity + \<bar>track_value - user_mean\<bar>, Suc audio_count)))"

definition diversity_score_body ::
  "pydict \<Rightarrow> user_profile \<Rightarrow> (string \<times> track_info) list \<Rightarrow> py_error + real" where
  "diversity_score_body candidate profile tm =
     then_do (str_item candidate ''item_id'') (\<lambda>item.
       let info = lookup_track tm item;
           track_genres = set (case ti_genres info of None \<Rightarrow> [] | Some l \<Rightarrow> l);
           user_genres = set (case up_preferred_genres profile of
                                None \<Rightarrow> [] | Some c \<Rightarrow> map fst c);
           genre_part = (if track_genres \<noteq> {} \<and> user_genres \<noteq> {}
                         then (1 - real (card (track_genres \<inter> user_genres))
                                   / real (card (track_genres \<union> user_genres))) * 0.4
                         else 0);
           track_popularity = (case ti_popularity info of None \<Rightarrow> 0 | Some x \<Rightarrow> x);
           user_avg_popularity = (case up_avg_popularity profile of None \<Rightarrow> 0 | Some x \<Rightarrow> x);
           popularity_part = \<bar>track_popularity - user_avg_popularity\<bar> / 100 * 0.3;
           prefs = (case up_audio_preferences profile of None \<Rightarrow> [] | Some l \<Rightarrow> l);
           audio = audio_loop info prefs audio_features (0, 0)
       in Inr (if snd audio > 0
               then genre_part + popularity_part + fst audio / real (snd audio) * 0.3
               else genre_part + popularity_part))"

definition calculate_diversity_score ::
  "pydict \<Rightarrow> user_profile \<Rightarrow> (string \<times> track_info) list \<Rightarrow> real" where
  "calculate_diversity_score candidate profile tm =
     (case diversity_score_body candidate profile tm of Inl e \<Rightarrow> 0 | Inr v \<Rightarrow> v)"

text \<open>
  The candidates of the pool that are not recommended yet, each copied and given its
  \<^verbatim>\<open>diversity_score\<close>.
\<close>

fun diversity_candidates ::
  "user_profile \<Rightarrow> (string \<times> track_info) list \<Rightarrow> string set \<Rightarrow> pydict list
   \<Rightarrow> py_error + pydict list" where
  "diversity_candidates profile tm recommended_ids [] = Inr []"
| "diversity_candidates profile tm recommended_ids (candidate # pool) =
     then_do (str_item candidate ''item_id'') (\<lambda>item.
     then_do (diversity_candidates profile tm recommended_ids pool) (\<lambda>rest.
       if item \<notin> recommended_ids
       then Inr (AList.update ''diversity_score''
                   (Num (calculate_diversity_score candidate profile tm)) candidate # rest)
       else Inr rest))"

text \<open>
  The loop that sets \<^verbatim>\<open>combined_score\<close>. It writes into the dictionaries themselves, so
  the entries it has passed keep their new key when a later entry raises: the loop
  returns the list as it stands, and the error if there was one.
\<close>

definition combined_score :: "real \<Rightarrow> pydict \<Rightarrow> py_error + pydict" where
  "combined_score strength r =
     (if map_of r ''diversity_score'' \<noteq> None
      then then_do (num_item r ''score'') (\<lambda>sc.
           then_do (num_item r ''diversity_score'') (\<lambda>dv.
             Inr (AList.update ''combined_score'' (Num (sc + dv * strength)) r)))
      else then_do (num_item r ''score'') (\<lambda>sc.
             Inr (AList.update ''combined_score'' (Num sc) r)))"

fun combined_loop :: "real \<Rightarrow> pydict list \<Rightarrow> pydict list \<times> py_error option" where
  "combined_loop strength [] = ([], None)"
| "combined_loop strength (r # rs) =
     (case combined_score strength r of
        Inl e \<Rightarrow> (r # rs, Some e)
      | Inr r' \<Rightarrow> (let (rs', err) = combined_loop strength rs in (r' # rs', err)))"

text \<open>
  \<^verbatim>\<open>inject_diversity\<close> returns a pair: the list it returns, and the caller's list
  \<^verbatim>\<open>recommendations\<close> as the call leaves it. The source sorts that list in place
  (\<^verbatim>\<open>recommendations.sort(key=lambda x: x['score'])\<close>) and the slice
  \<^verbatim>\<open>recommendations[n_replacements:]\<close> shares its dictionaries; the entries of the
  caller's list are taken to be distinct objects. On an error the source returns the
  caller's list itself.
\<close>

definition inject_diversity ::
  "diversity_injector \<Rightarrow> string \<Rightarrow> pydict list \<Rightarrow> pydict list \<Rightarrow> (string \<times> track_info) list
   \<Rightarrow> pydict list \<times> pydict list" where
  "inject_diversity injector user_id recommendations candidate_pool tm =
     (case map_of (user_profiles injector) user_id of
        None \<Rightarrow> (recommendations, recommendations)
      | Some profile \<Rightarrow>
          (case then_do (item_ids_of recommendations) (\<lambda>ids.
                then_do (diversity_candidates profile tm (set ids) candidate_pool)
                  (sort_on ''diversity_score'' True)) of
             Inl e \<Rightarrow> (recommendations, recommendations)
           | Inr candidates \<Rightarrow>
               (case sort_on ''score'' False recommendations of
                  Inl e \<Rightarrow> (recommendations, recommendations)
                | Inr sorted_recs \<Rightarrow>
                    let n_replacements =
                          py_int (real (length recommendations) * diversity_strength injector);
                        kept = slice_from n_replacements sorted_recs;
                        looped = combined_loop (diversity_strength injector)
                                   (kept @ slice_to n_replacements candidates);
                        diverse = fst looped;
                        caller = take (length sorted_recs - length kept) sorted_recs
                                 @ take (length kept) diverse
                    in (case snd looped of
                          Some e \<Rightarrow> (caller, caller)
                        | None \<Rightarrow>
                            (case sort_on ''combined_score'' True diverse of
                               Inl e \<Rightarrow> (caller, caller)
                             | Inr result \<Rightarrow> (result, caller))))))"

section \<open>Recommendation models (\<^verbatim>\<open>src/ml/models.py\<close>)\<close>

text \<open>
  What the models take from outside the repository: numpy's \<^verbatim>\<open>argsort\<close> (its order
  among equal values is not fixed by its contract), Python's \<^verbatim>\<open>hash\<close> on strings
  (randomised per process) and the clock. Nothing is assumed about them.
\<close>

record externals =
  np_argsort :: "real list \<Rightarrow> nat list"
  py_hash :: "string \<Rightarrow> int"
  now_iso :: string

subsection \<open>\<^verbatim>\<open>ContentBasedFiltering\<close>\<close>

record content_based_filtering =
  similarity_matrix :: "real list list option"
  cbf_item_ids :: "string list option"

text \<open>\<^verbatim>\<open>np.where(self.item_ids == item_id)[0]\<close>, then its first element if there is one.\<close>

fun first_index :: "string \<Rightarrow> string list \<Rightarrow> nat option" where
  "first_index item [] = None"
| "first_index item (x # xs) =
     (if x = item then Some 0 else map_option Suc (first_index item xs))"

fun similar_pairs :: "string list \<Rightarrow> real list \<Rightarrow> nat list \<Rightarrow> py_error + (string \<times> real) list" where
  "similar_pairs ids similarities [] = Inr []"
| "similar_pairs ids similarities (idx # rest) =
     (if idx < length ids \<and> idx < length similarities
      then then_do (similar_pairs ids similarities rest) (\<lambda>ps.
             Inr ((ids ! idx, similarities ! idx) # ps))
      else Inl IndexError)"

definition similar_body ::
  "externals \<Rightarrow> content_based_filtering \<Rightarrow> string \<Rightarrow> int \<Rightarrow> py_error + (string \<times> real) list" where
  "similar_body ext cbf item n_recommendations =
     (case similarity_matrix cbf of
        None \<Rightarrow> Inl ValueError
      | Some matrix \<Rightarrow>
          let ids = (case cbf_item_ids cbf of None \<Rightarrow> [] | Some l \<Rightarrow> l)
          in (case first_index item ids of
                None \<Rightarrow> Inr []
              | Some item_idx \<Rightarrow>
                  if item_idx < length matrix then
                    let similarities = matrix ! item_idx;
                        similar_indices =
                          drop 1 (slice_to (n_recommendations + 1)
                                    (rev (np_argsort ext similarities)))
                    in similar_pairs ids similarities similar_indices
                  else Inl IndexError))"

definition get_similar_items ::
  "externals \<Rightarrow> content_based_filtering \<Rightarrow> string \<Rightarrow> int \<Rightarrow> (string \<times> real) list" where
  "get_similar_items ext cbf item n_recommendations =
     (case similar_body ext cbf item n_recommendations of Inl e \<Rightarrow> [] | Inr ps \<Rightarrow> ps)"

text \<open>The inner loop of \<^verbatim>\<open>recommend_for_user\<close>, over the items similar to one liked item.\<close>

fun add_similar ::
  "string list \<Rightarrow> (string \<times> real) list \<Rightarrow> (string \<times> real) list \<Rightarrow> (string \<times> real) list" where
  "add_similar liked [] all_recommendations = all_recommendations"
| "add_similar liked ((similar_item, similarity) # rest) all_recommendations =
     add_similar liked rest
       (if similar_item \<notin> set liked
        then (case map_of all_recommendations similar_item of
                Some v \<Rightarrow> AList.update similar_item (v + similarity) all_recommendations
              | None \<Rightarrow> AList.update similar_item similarity all_recommendations)
        else all_recommendations)"

fun liked_loop ::
  "externals \<Rightarrow> content_based_filtering \<Rightarrow> string list \<Rightarrow> int \<Rightarrow> string list
   \<Rightarrow> (string \<times> real) list \<Rightarrow> (string \<times> real) list" where
  "liked_loop ext cbf liked n [] all_recommendations = all_recommendations"
| "liked_loop ext cbf liked n (item # items) all_recommendations =
     liked_loop ext cbf liked n items
       (add_similar liked (get_similar_items ext cbf item (n * 2)) all_recommendations)"

definition recommend_for_user ::
  "externals \<Rightarrow> content_based_filtering \<Rightarrow> string list \<Rightarrow> int \<Rightarrow> (string \<times> real) list" where
  "recommend_for_user ext cbf user_liked_items n_recommendations =
     (if user_liked_items = [] then []
      else slice_to n_recommendations
             (sorted_reverse snd
                (liked_loop ext cbf user_liked_items n_recommendations user_liked_items [])))"

subsection \<open>\<^verbatim>\<open>PopularityBasedRecommender\<close>\<close>

definition get_popular_items :: "(string \<times> real) list \<Rightarrow> int \<Rightarrow> (string \<times> real) list" where
  "get_popular_items item_popularity n_items =
     slice_to n_items (sorted_reverse snd item_popularity)"

subsection \<open>\<^verbatim>\<open>HybridRecommendationSystem\<close>\<close>

text \<open>
  The fitted regressor is the function \<^verbatim>\<open>ncf_model.predict\<close> from the user and item
  index arrays to the array of predictions (empty when the prediction fails).
\<close>

record hybrid_recommendation_system =
  weights :: "(string \<times> real) list"
  ncf_model :: "(nat list \<Rightarrow> nat list \<Rightarrow> real list) option"
  content_model :: content_based_filtering
  popularity_model :: "(string \<times> real) list"
  hybrid_injector :: "diversity_injector option"
  user_encoder :: "(string \<times> nat) list"
  item_encoder :: "(string \<times> nat) list"

text \<open>\<^verbatim>\<open>{idx: item for item, idx in self.item_encoder.items()}\<close>.\<close>

definition reverse_item_encoder :: "(string \<times> nat) list \<Rightarrow> (nat \<times> string) list" where
  "reverse_item_encoder enc = fold (\<lambda>(item, idx) acc. AList.update idx item acc) enc []"

fun cf_pairs :: "(nat \<times> string) list \<Rightarrow> nat \<Rightarrow> real list \<Rightarrow> py_error + (string \<times> real) list" where
  "cf_pairs renc idx [] = Inr []"
| "cf_pairs renc idx (score # rest) =
     (case map_of renc idx of
        None \<Rightarrow> Inl KeyError
      | Some item \<Rightarrow> then_do (cf_pairs renc (Suc idx) rest) (\<lambda>ps. Inr ((item, score) # ps)))"

definition collaborative_body ::
  "hybrid_recommendation_system \<Rightarrow> string \<Rightarrow> int \<Rightarrow> py_error + (string \<times> real) list" where
  "collaborative_body hs user_id n_items =
     (case map_of (user_encoder hs) user_id of
        None \<Rightarrow> Inr []
      | Some user_idx \<Rightarrow>
          (case ncf_model hs of
             None \<Rightarrow> Inl AttributeError
           | Some predict \<Rightarrow>
               let item_indices = [0 ..< length (item_encoder hs)];
                   user_indices = replicate (length item_indices) user_idx;
                   predictions = predict user_indices item_indices
               in then_do (cf_pairs (reverse_item_encoder (item_encoder hs)) 0 predictions)
                    (\<lambda>item_scores. Inr (slice_to n_items (sorted_reverse snd item_scores)))))"

definition get_collaborative_scores ::
  "hybrid_recommendation_system \<Rightarrow> string \<Rightarrow> int \<Rightarrow> (string \<times> real) list" where
  "get_collaborative_scores hs user_id n_items =
     (case collaborative_body hs user_id n_items of Inl e \<Rightarrow> [] | Inr ps \<Rightarrow> ps)"

text \<open>
  \<^verbatim>\<open>all_scores[item_id] = all_scores.get(item_id, 0) + score * self.weights[source]\<close>,
  for the scores of one source; the weight is looked up in every round.
\<close>

fun add_scores ::
  "(string \<times> real) list \<Rightarrow> string \<Rightarrow> (string \<times> real) list \<Rightarrow> (string \<times> real) list
   \<Rightarrow> py_error + (string \<times> real) list" where
  "add_scores w source [] all_scores = Inr all_scores"
| "add_scores w source ((item, score) # rest) all_scores =
     (case map_of w source of
        None \<Rightarrow> Inl KeyError
      | Some weight \<Rightarrow>
          add_scores w source rest
            (AList.update item
               ((case map_of all_scores item of None \<Rightarrow> 0 | Some v \<Rightarrow> v) + score * weight)
               all_scores))"

text \<open>\<^verbatim>\<open>DiversityInjector.calculate_diversity_scores\<close>: \<^verbatim>\<open>hash(item_id) % 1000 / 1000.0\<close>.\<close>

definition calculate_diversity_scores :: "externals \<Rightarrow> string list \<Rightarrow> (string \<times> real) list" where
  "calculate_diversity_scores ext item_ids =
     fold (\<lambda>item acc. AList.update item (real_of_int (py_hash ext item mod 1000) / 1000) acc)
       item_ids []"

fun boost_loop :: "real \<Rightarrow> (string \<times> real) list \<Rightarrow> (string \<times> real) list \<Rightarrow> (string \<times> real) list" where
  "boost_loop diversity_boost [] all_scores = all_scores"
| "boost_loop diversity_boost ((item, div_score) # rest) all_scores =
     boost_loop diversity_boost rest
       (case map_of all_scores item of
          None \<Rightarrow> all_scores
        | Some v \<Rightarrow> AList.update item (v + div_score * diversity_boost) all_scores)"

text \<open>The dictionary \<^verbatim>\<open>all_scores\<close> of \<^verbatim>\<open>recommend\<close>, as it stands before the sort.\<close>

definition hybrid_scores ::
  "externals \<Rightarrow> hybrid_recommendation_system \<Rightarrow> string \<Rightarrow> string list \<Rightarrow> int \<Rightarrow> real
   \<Rightarrow> py_error + (string \<times> real) list" where
  "hybrid_scores ext hs user_id user_liked_items n_recommendations diversity_boost =
     then_do (if ncf_model hs \<noteq> None \<and> map_of (user_encoder hs) user_id \<noteq> None
              then add_scores (weights hs) ''collaborative''
                     (get_collaborative_scores hs user_id (n_recommendations * 2)) []
              else Inr []) (\<lambda>s1.
     then_do (add_scores (weights hs) ''content''
                (recommend_for_user ext (content_model hs) user_liked_items
                   (n_recommendations * 2)) s1) (\<lambda>s2.
     then_do (add_scores (weights hs) ''popularity''
                (get_popular_items (popularity_model hs) (n_recommendations * 2)) s2) (\<lambda>s3.
       Inr (if diversity_boost > 0 \<and> hybrid_injector hs \<noteq> None
            then boost_loop diversity_boost (calculate_diversity_scores ext (map fst s3)) s3
            else s3))))"

definition recommendation_entry :: "externals \<Rightarrow> string \<times> real \<Rightarrow> pydict" where
  "recommendation_entry ext p =
     [(''item_id'', Str (fst p)), (''score'', Num (snd p)), (''timestamp'', Str (now_iso ext))]"

definition recommend ::
  "externals \<Rightarrow> hybrid_recommendation_system \<Rightarrow> string \<Rightarrow> string list \<Rightarrow> int \<Rightarrow> real
   \<Rightarrow> pydict list" where
  "recommend ext hs user_id user_liked_items n_recommendations diversity_boost =
     (case hybrid_scores ext hs user_id user_liked_items n_recommendations diversity_boost of
        Inl e \<Rightarrow> []
      | Inr all_scores \<Rightarrow>
          map (recommendation_entry ext)
            (slice_to n_recommendations (sorted_reverse snd all_scores)))"

text \<open>The item id and the score of an entry of the result, as a pair.\<close>

definition entry_pair :: "pydict \<Rightarrow> (string \<times> real) option" where
  "entry_pair r = (case (map_of r ''item_id'', map_of r ''score'') of
                     (Some (Str i), Some (Num s)) \<Rightarrow> Some (i, s) | _ \<Rightarrow> None)"

text \<open>
  What \<^verbatim>\<open>enforce_fairness\<close> may do to an entry: leave it as it is, or set its flag
  \<^verbatim>\<open>needs_niche_replacement\<close>.
\<close>

definition flagged :: "pydict \<Rightarrow> pydict \<Rightarrow> bool" where
  "flagged r r' = (r' = r \<or> r' = AList.update ''needs_niche_replacement'' (Flag True) r)"

section \<open>Example inputs\<close>

text \<open>
  Inputs for the concrete instances below: an \<^verbatim>\<open>argsort\<close> that sorts the indices by
  value, a hybrid system with only its popularity model fitted and the default weights,
  an injector that knows the user \<^verbatim>\<open>u\<close>, and a list of four recommendations in the
  descending order of score in which \<^verbatim>\<open>recommend\<close> returns them.
\<close>

definition example_externals :: externals where
  "example_externals =
     \<lparr>np_argsort = (\<lambda>xs. map fst (sort_key snd (enumerate 0 xs))),
      py_hash = (\<lambda>s. 0), now_iso = ''2024-01-01T00:00:00''\<rparr>"

definition example_hybrid :: "(string \<times> real) list \<Rightarrow> hybrid_recommendation_system" where
  "example_hybrid popularity =
     \<lparr>weights = [(''collaborative'', 0.4), (''content'', 0.3), (''popularity'', 0.1),
                 (''diversity'', 0.2)],
      ncf_model = None,
      content_model = \<lparr>similarity_matrix = None, cbf_item_ids = None\<rparr>,
      popularity_model = popularity,
      hybrid_injector = None, user_encoder = [], item_encoder = []\<rparr>"

definition example_injector :: "real \<Rightarrow> diversity_injector" where
  "example_injector strength =
     \<lparr>diversity_strength = strength, novelty_weight = 0.4,
      user_profiles = [(''u'', \<lparr>up_preferred_genres = None, up_avg_popularity = None,
                                up_audio_preferences = None\<rparr>)]\<rparr>"

definition example_recommendations :: "pydict list" where
  "example_recommendations =
     [[(''item_id'', Str ''a''), (''score'', Num 4)], [(''item_id'', Str ''b''), (''score'', Num 3)],
      [(''item_id'', Str ''c''), (''score'', Num 2)], [(''item_id'', Str ''d''), (''score'', Num 1)]]"

text \<open>
  A fitted debiaser (popularities from 0 to 100, mean 50, strength 0.5) and the metadata
  that give the track \<^verbatim>\<open>t\<close> a popularity.
\<close>

definition example_debiaser :: popularity_debiaser where
  "example_debiaser = \<lparr>debiasing_strength = 0.5,
     popularity_stats = [(''mean'', Num 50), (''min'', Num 0), (''max'', Num 100)]\<rparr>"

definition example_track :: "real \<Rightarrow> (string \<times> track_info) list" where
  "example_track popularity =
     [(''t'', \<lparr>ti_artist_id = None, ti_popularity = Some popularity, ti_genres = None,
               ti_audio = []\<rparr>)]"

section \<open>Properties of the evaluator\<close>

text \<open>
  C5. With an empty ground-truth list, \<^verbatim>\<open>_calculate_accuracy_metrics\<close> returns the
  dictionary with precision, recall, f1 and ndcg all zero, for every recommendation list;
  in particular it does not take the error path, whose result is the empty dictionary.
\<close>

theorem accuracy_metrics_empty_ground_truth:
  "calculate_accuracy_metrics recommendations [] =
     [(''precision'', Num 0), (''recall'', Num 0), (''f1'', Num 0), (''ndcg'', Num 0)]"
  by (simp add: calculate_accuracy_metrics_def accuracy_body_def)


text \<open>
  C2. The claim is that a uniform frequency list has Gini coefficient 0. The source
  enumerates the sorted values from 0 and divides by \<open>n * sum\<close>, so for four artists
  appearing once each it returns \<open>-23/16\<close>.
\<close>

theorem gini_uniform_four:
  "calculate_gini_coefficient [1, 1, 1, 1] = - 23 / 16"
  by (simp add: calculate_gini_coefficient_def gini_body_def enumerate_eq_zip upt_rec)

text \<open>
  The same holds for every uniform list of counts: for \<open>n \<ge> 2\<close> entries, all equal to
  \<open>c \<ge> 1\<close>, the source returns \<open>(n + 1 - c n (n + 3)) / (n\<^sup>2 c)\<close>, which is negative.
\<close>

lemma weighted_uniform:
  "sum_list (map (\<lambda>(i, y). (N + 1 - real i) * y) (enumerate k (replicate m c)))
   = c * (real m * (N + 1) - (real m * real k + real m * (real m - 1) / 2))"
proof (induction m arbitrary: k)
  case 0
  then show ?case by simp
next
  case (Suc m)
  have "sum_list (map (\<lambda>(i, y). (N + 1 - real i) * y) (enumerate k (replicate (Suc m) c)))
        = (N + 1 - real k) * c
          + c * (real m * (N + 1) - (real m * real (Suc k) + real m * (real m - 1) / 2))"
    by (simp add: Suc.IH)
  also have "\<dots> = c * (real (Suc m) * (N + 1)
                        - (real (Suc m) * real k + real (Suc m) * (real (Suc m) - 1) / 2))"
    by (simp add: field_simps)
  finally show ?case .
qed

lemma gini_uniform:
  assumes "2 \<le> n" and "1 \<le> c"
  shows "calculate_gini_coefficient (replicate n c)
         = (real n + 1 - c * real n * (real n + 3)) / (real n * (real n * c))"
    and "calculate_gini_coefficient (replicate n c) < 0"
proof -
  have srt: "sort (replicate n c) = replicate n c"
    by (simp add: sorted_sort_id)
  have ne: "replicate n c \<noteq> []" "length (replicate n c) \<noteq> 1" using assms by auto
  have den: "0 < real n * (real n * c)" using assms by simp
  have w: "sum_list (map (\<lambda>(i, y). (real n + 1 - real i) * y) (enumerate 0 (replicate n c)))
          = c * real n * (real n + 3) / 2"
    unfolding weighted_uniform by (simp add: field_simps)
  show eq: "calculate_gini_coefficient (replicate n c)
         = (real n + 1 - c * real n * (real n + 3)) / (real n * (real n * c))"
    using ne den w
    by (simp add: calculate_gini_coefficient_def gini_body_def srt Let_def sum_list_replicate)
  have "real n + 1 < real n * (real n + 3)"
  proof -
    have "2 \<le> real n" using assms by simp
    then have "real n * 2 \<le> real n * (real n + 3)" by (intro mult_left_mono) auto
    then show ?thesis using \<open>2 \<le> real n\<close> by linarith
  qed
  also have "real n * (real n + 3) \<le> c * (real n * (real n + 3))"
    using mult_right_mono [of 1 c "real n * (real n + 3)"] assms by simp
  finally have "real n + 1 - c * real n * (real n + 3) < 0" by (simp add: mult.assoc)
  then show "calculate_gini_coefficient (replicate n c) < 0"
    unfolding eq using den by (simp add: divide_neg_pos)
qed

subsection \<open>NDCG of the ideal order\<close>

lemma ground_truth_ids_distinct:
  "ground_truth_ids gts acc = Inr g \<Longrightarrow> distinct (map fst acc) \<Longrightarrow> distinct (map fst g)"
proof (induction gts arbitrary: acc)
  case Nil
  then show ?case by simp
next
  case (Cons gt rest)
  then show ?case
    by (auto simp: then_do_def distinct_update split: sum.splits)
qed

lemma item_ids_of_take:
  "item_ids_of recs = Inr ids \<Longrightarrow> item_ids_of (take n recs) = Inr (take n ids)"
proof (induction recs arbitrary: ids n)
  case Nil
  then show ?case by simp
next
  case (Cons r rs)
  then show ?case
    by (cases n) (auto simp: then_do_def split: sum.splits)
qed

lemma dcg_loop_sum:
  "item_ids_of recs = Inr ids \<Longrightarrow>
   dcg_loop g i recs acc =
     Inr (acc + sum_list (map (\<lambda>(j, r). if r > 0 then r / log 2 (real (j + 2)) else 0)
                              (enumerate i (map (relevance_of g) ids))))"
proof (induction recs arbitrary: ids i acc)
  case Nil
  then show ?case by simp
next
  case (Cons r rs)
  then show ?case
    by (auto simp: then_do_def Let_def split: sum.splits)
qed

lemma dcg_terms_nonneg:
  "\<forall>r \<in> set rels. 0 \<le> r \<Longrightarrow>
   sum_list (map (\<lambda>(j, r). if r > 0 then r / log 2 (real (j + 2)) else 0) (enumerate i rels))
   = sum_list (map (\<lambda>(j, r). r / log 2 (real (j + 2))) (enumerate i rels))"
proof (induction rels arbitrary: i)
  case Nil
  then show ?case by simp
next
  case (Cons a rels)
  then show ?case by (auto simp: not_less)
qed

lemma idcg_terms_ge0:
  "\<forall>r \<in> set rels. 0 \<le> r \<Longrightarrow>
   0 \<le> sum_list (map (\<lambda>(j, r). r / log 2 (real (j + 2))) (enumerate i rels))"
proof (induction rels arbitrary: i)
  case Nil
  then show ?case by simp
next
  case (Cons a rels)
  have "0 \<le> a / log 2 (real (i + 2))" using Cons.prems by simp
  moreover have "0 \<le> sum_list (map (\<lambda>(j, r). r / log 2 (real (j + 2))) (enumerate (Suc i) rels))"
    using Cons by simp
  ultimately show ?case by simp
qed

lemma idcg_sum_pos:
  assumes "\<forall>r \<in> set rels. 0 \<le> r" and "rels \<noteq> []" and "0 < hd rels"
  shows "0 < idcg_sum rels"
proof -
  obtain a rest where rels: "rels = a # rest" using assms(2) by (cases rels) auto
  have "0 < a / log 2 (real (0 + 2))" using assms(3) rels by simp
  moreover have "0 \<le> sum_list (map (\<lambda>(j, r). r / log 2 (real (j + 2))) (enumerate (Suc 0) rest))"
    using idcg_terms_ge0 [of rest "Suc 0"] assms(1) rels by simp
  ultimately show ?thesis by (simp add: idcg_sum_def rels)
qed

lemma map_relevance_keys:
  assumes "distinct (map fst g)"
  shows "map (relevance_of g) (map fst g) = map snd g"
proof -
  have "relevance_of g (fst p) = snd p" if "p \<in> set g" for p
  proof -
    have "map_of g (fst p) = Some (snd p)"
      using assms that by (cases p) simp
    then show ?thesis by (simp add: relevance_of_def)
  qed
  then show ?thesis by simp
qed

lemma discounted_sum_append:
  "sum_list (map (\<lambda>(j, r). r / log 2 (real (j + 2))) (enumerate i (xs @ replicate z 0)))
   = sum_list (map (\<lambda>(j, r). r / log 2 (real (j + 2))) (enumerate i xs))"
proof (induction xs arbitrary: i)
  case Nil
  show ?case by (induction z arbitrary: i) simp_all
next
  case (Cons a xs)
  then show ?case by simp
qed

lemma relevance_outside:
  assumes "item \<notin> set (map fst g)"
  shows "relevance_of g item = 0"
proof -
  have "map_of g item = None" using assms by (simp add: map_of_eq_None_iff)
  then show ?thesis by (simp add: relevance_of_def)
qed

lemma mset_relevances:
  assumes dg: "distinct (map fst g)" and di: "distinct ids"
    and incl: "set (map fst g) \<subseteq> set ids"
  shows "\<exists>z. mset (map (relevance_of g) ids) = mset (map snd g) + replicate_mset z 0"
proof -
  define inside where "inside = filter (\<lambda>i. i \<in> set (map fst g)) ids"
  define outside where "outside = filter (\<lambda>i. i \<notin> set (map fst g)) ids"
  have part: "mset ids = mset inside + mset outside"
    unfolding inside_def outside_def by (induction ids) simp_all
  have "distinct inside" using di by (simp add: inside_def)
  moreover have "set inside = set (map fst g)" using incl by (auto simp: inside_def)
  ultimately have mi: "mset inside = mset (map fst g)"
    using dg set_eq_iff_mset_eq_distinct [of inside "map fst g"] by blast
  have "mset (map (relevance_of g) inside) = mset (map (relevance_of g) (map fst g))"
    using mi by (metis mset_map)
  then have a: "mset (map (relevance_of g) inside) = mset (map snd g)"
    by (simp only: map_relevance_keys [OF dg])
  have "map (relevance_of g) outside = replicate (length outside) 0"
    by (rule nth_equalityI) (auto simp: outside_def relevance_outside dest: nth_mem)
  then have b: "mset (map (relevance_of g) outside) = replicate_mset (length outside) 0"
    by simp
  have "mset (map (relevance_of g) ids)
        = mset (map (relevance_of g) inside) + mset (map (relevance_of g) outside)"
    using part by (metis mset_map mset_append map_append)
  then show ?thesis using a b by auto
qed

text \<open>
  C4, as amended. Let \<open>g\<close> be the relevance table the source builds from the ground
  truth, with no negative rating and at least one positive rating. If the recommended
  items are distinct, include every item of \<open>g\<close>, and their relevances (0 for an
  item outside the ground truth) are in descending order, then \<^verbatim>\<open>_calculate_ndcg\<close>
  returns 1, for every cut-off \<open>k \<ge> 1\<close> (the source uses 10). So the list may go on
  with items outside the ground truth after the ground-truth items.
\<close>

theorem ndcg_ideal_order:
  assumes gt: "ground_truth_ids ground_truth [] = Inr g"
    and recs: "item_ids_of recommendations = Inr ids"
    and dist_ids: "distinct ids"
    and incl: "set (map fst g) \<subseteq> set ids"
    and desc: "sorted (rev (map (relevance_of g) ids))"
    and nonneg: "\<forall>r \<in> set (map snd g). 0 \<le> r"
    and pos: "\<exists>r \<in> set (map snd g). 0 < r"
    and k: "1 \<le> k"
  shows "calculate_ndcg recommendations ground_truth k = 1"
proof -
  define rels where "rels = map (relevance_of g) ids"
  define ideal where "ideal = sorted_reverse (\<lambda>x. x) (map snd g)"
  have dist: "distinct (map fst g)"
    using ground_truth_ids_distinct [OF gt] by simp
  obtain z where mz: "mset rels = mset (map snd g) + replicate_mset z 0"
    using mset_relevances [OF dist dist_ids incl] unfolding rels_def by blast
  have rev_ideal: "rev ideal = sort (rev (map snd g))"
    by (simp add: ideal_def sorted_reverse_def)
  have set_ideal: "set ideal = set (map snd g)"
    by (simp add: ideal_def sorted_reverse_def)
  have mset_ideal: "mset ideal = mset (map snd g)"
    by (simp add: ideal_def sorted_reverse_def)
  have "sorted (replicate z 0 @ rev ideal)"
    using nonneg set_ideal by (auto simp: sorted_append rev_ideal)
  moreover have "mset (replicate z 0 @ rev ideal) = mset (rev rels)"
    using mz mset_ideal by simp
  ultimately have "sort (rev rels) = replicate z 0 @ rev ideal"
    by (intro properties_for_sort) simp_all
  moreover have "sort (rev rels) = rev rels"
    using desc by (simp add: rels_def sorted_sort_id)
  ultimately have "rev rels = replicate z 0 @ rev ideal" by simp
  then have "rev (rev rels) = rev (replicate z 0 @ rev ideal)" by simp
  then have rels_eq: "rels = ideal @ replicate z 0" by simp
  have k_take: "slice_to k xs = take (nat k) xs" for xs :: "'a list"
    using k by (simp add: slice_to_def)
  have nn_rels: "\<forall>r \<in> set rels. 0 \<le> r"
    using nonneg set_ideal by (auto simp: rels_eq)
  then have nn: "\<forall>r \<in> set (take (nat k) rels). 0 \<le> r"
    by (metis in_set_takeD)
  have nn_ideal: "\<forall>r \<in> set (take (nat k) ideal). 0 \<le> r"
    using nonneg set_ideal by (metis in_set_takeD)
  have tk: "take (nat k) rels
            = take (nat k) ideal @ replicate (min z (nat k - length ideal)) 0"
    by (simp add: rels_eq)
  have m: "map (relevance_of g) (take (nat k) ids) = take (nat k) rels"
    by (simp add: rels_def take_map)
  have "sum_list (map (\<lambda>(j, r). if r > 0 then r / log 2 (real (j + 2)) else 0)
                      (enumerate 0 (take (nat k) rels)))
        = sum_list (map (\<lambda>(j, r). r / log 2 (real (j + 2))) (enumerate 0 (take (nat k) rels)))"
    using dcg_terms_nonneg [OF nn, of 0] .
  also have "\<dots> = sum_list (map (\<lambda>(j, r). r / log 2 (real (j + 2)))
                               (enumerate 0 (take (nat k) ideal)))"
    by (simp only: tk discounted_sum_append)
  also have "\<dots> = idcg_sum (take (nat k) ideal)"
    by (simp add: idcg_sum_def)
  finally have "dcg_loop g 0 (take (nat k) recommendations) 0
             = Inr (0 + idcg_sum (take (nat k) ideal))"
    using dcg_loop_sum [OF item_ids_of_take [OF recs], of g 0 "nat k" 0]
    by (simp only: m)
  then have dcg: "dcg_loop g 0 (take (nat k) recommendations) 0
             = Inr (idcg_sum (take (nat k) ideal))"
    by simp
  obtain r where r: "r \<in> set ideal" "0 < r" using pos set_ideal by auto
  then have ne: "ideal \<noteq> []" by auto
  have "r \<le> hd ideal"
  proof -
    obtain a rest where ar: "ideal = a # rest" using ne by (cases ideal) auto
    have "sorted (rev ideal)" by (simp add: rev_ideal)
    then have "sorted (rev rest @ [a])" using ar by simp
    then have "\<forall>x \<in> set rest. x \<le> a" by (simp add: sorted_append)
    then show ?thesis using r(1) ar by auto
  qed
  then have hd_pos: "0 < hd ideal" using r by simp
  have tk_ne: "take (nat k) ideal \<noteq> []" using ne k by (cases ideal) auto
  have hd_tk: "hd (take (nat k) ideal) = hd ideal"
    using k ne by (cases ideal; cases "nat k") auto
  have "0 < idcg_sum (take (nat k) ideal)"
    using idcg_sum_pos [OF nn_ideal tk_ne] hd_pos hd_tk by simp
  then show ?thesis
    using gt dcg
    by (simp add: calculate_ndcg_def ndcg_body_def then_do_def k_take ideal_def [symmetric])
qed

text \<open>
  An instance: the ground truth \<open>a\<close> (rating 3) and \<open>b\<close> (rating 1 by default),
  recommended in this order and followed by an item \<open>x\<close> outside the ground truth.
\<close>

theorem ndcg_ideal_order_witness:
  "ground_truth_ids [[(''item_id'', Str ''a''), (''rating'', Num 3)], [(''item_id'', Str ''b'')]] []
     = Inr [(''a'', 3), (''b'', 1)]
   \<and> item_ids_of [[(''item_id'', Str ''a'')], [(''item_id'', Str ''b'')], [(''item_id'', Str ''x'')]]
     = Inr [''a'', ''b'', ''x'']
   \<and> calculate_ndcg [[(''item_id'', Str ''a'')], [(''item_id'', Str ''b'')], [(''item_id'', Str ''x'')]]
        [[(''item_id'', Str ''a''), (''rating'', Num 3)], [(''item_id'', Str ''b'')]] 10 = 1"
proof -
  have g: "ground_truth_ids [[(''item_id'', Str ''a''), (''rating'', Num 3)], [(''item_id'', Str ''b'')]] []
     = Inr [(''a'', 3), (''b'', 1)]"
    by (simp add: then_do_def str_item_def num_get_def)
  have i: "item_ids_of [[(''item_id'', Str ''a'')], [(''item_id'', Str ''b'')], [(''item_id'', Str ''x'')]]
     = Inr [''a'', ''b'', ''x'']"
    by (simp add: then_do_def str_item_def)
  show ?thesis
    using ndcg_ideal_order [OF g i, of 10] g i by (simp add: relevance_of_def)
qed

text \<open>
  C4 as stated fails: a ground truth whose only item has rating 0, recommended as it
  is, gives NDCG 0 (the source skips relevances that are not positive, and returns 0
  when the ideal DCG is not positive).
\<close>

theorem ndcg_zero_rating_counterexample:
  "calculate_ndcg [[(''item_id'', Str ''a'')]]
     [[(''item_id'', Str ''a''), (''rating'', Num 0)]] 10 = 0
   \<and> calculate_ndcg [[(''item_id'', Str ''a'')]]
     [[(''item_id'', Str ''a''), (''rating'', Num 0)]] 10 \<noteq> 1"
  by (simp add: calculate_ndcg_def ndcg_body_def then_do_def str_item_def num_get_def
      slice_to_def sorted_reverse_def idcg_sum_def relevance_of_def)

subsection \<open>Overall quality score\<close>

text \<open>
  C9, as amended. With \<open>a\<close>, \<open>d\<close>, \<open>n\<close>, \<open>c\<close> and \<open>b\<close> the f1, intra-list diversity,
  combined novelty, genre coverage and overall bias scores read from the evaluation
  results (0 where absent), the overall score is the weighted combination
  \<open>0.3 a + 0.25 d + 0.2 n + 0.15 c - 0.1 b\<close> clamped to the interval from 0 to 1.
\<close>

theorem overall_quality_score_clamped:
  assumes "nested_get ev ''accuracy'' ''f1'' = Inr a"
    and "nested_get ev ''diversity'' ''intra_list_diversity'' = Inr d"
    and "nested_get ev ''novelty'' ''combined_novelty'' = Inr n"
    and "nested_get ev ''coverage'' ''genre_coverage'' = Inr c"
    and "nested_get ev ''bias'' ''overall_bias_score'' = Inr b"
  shows "map_of (calculate_overall_quality_score ev) ''overall_score''
         = Some (Num (max 0 (min 1 (a * 0.3 + d * 0.25 + n * 0.2 + c * 0.15 - b * 0.1))))"
  using assms
  by (simp add: calculate_overall_quality_score_def quality_body_def then_do_def Let_def)

theorem overall_quality_score_clamped_witness:
  "nested_get [(''accuracy'', Dict [(''f1'', Num 0.8)]),
               (''diversity'', Dict [(''intra_list_diversity'', Num 0.5)]),
               (''novelty'', Dict [(''combined_novelty'', Num 0.5)]),
               (''coverage'', Dict [(''genre_coverage'', Num 0.4)]),
               (''bias'', Dict [(''overall_bias_score'', Num 0.2)])] ''accuracy'' ''f1'' = Inr 0.8
   \<and> map_of (calculate_overall_quality_score
         [(''accuracy'', Dict [(''f1'', Num 0.8)]),
          (''diversity'', Dict [(''intra_list_diversity'', Num 0.5)]),
          (''novelty'', Dict [(''combined_novelty'', Num 0.5)]),
          (''coverage'', Dict [(''genre_coverage'', Num 0.4)]),
          (''bias'', Dict [(''overall_bias_score'', Num 0.2)])]) ''overall_score''
       = Some (Num 0.505)"
  using overall_quality_score_clamped [of
         "[(''accuracy'', Dict [(''f1'', Num 0.8)]),
          (''diversity'', Dict [(''intra_list_diversity'', Num 0.5)]),
          (''novelty'', Dict [(''combined_novelty'', Num 0.5)]),
          (''coverage'', Dict [(''genre_coverage'', Num 0.4)]),
          (''bias'', Dict [(''overall_bias_score'', Num 0.2)])]" "0.8" "0.5" "0.5" "0.4" "0.2"]
  by (simp add: nested_get_def dict_get_def num_get_def then_do_def)

text \<open>
  C9 as stated fails where the combination leaves the interval: with every component 0
  and an overall bias score of 0.5 the combination is \<open>-0.05\<close>, and the source returns 0.
\<close>

theorem overall_quality_score_counterexample:
  "map_of (calculate_overall_quality_score
         [(''accuracy'', Dict [(''f1'', Num 0)]),
          (''diversity'', Dict [(''intra_list_diversity'', Num 0)]),
          (''novelty'', Dict [(''combined_novelty'', Num 0)]),
          (''coverage'', Dict [(''genre_coverage'', Num 0)]),
          (''bias'', Dict [(''overall_bias_score'', Num 0.5)])]) ''overall_score''
       \<noteq> Some (Num (0 * 0.3 + 0 * 0.25 + 0 * 0.2 + 0 * 0.15 - 0.5 * 0.1))"
  by (simp add: calculate_overall_quality_score_def quality_body_def nested_get_def
      dict_get_def num_get_def then_do_def)

section \<open>Properties of the debiasing transforms\<close>

subsection \<open>Popularity penalty\<close>

lemma penalty_mono:
  assumes "p1 \<le> p2"
  shows "calculate_popularity_penalty d p1 \<le> calculate_popularity_penalty d p2"
proof (cases "penalty_body (popularity_stats d) p1")
  case (Inl e)
  then have "penalty_body (popularity_stats d) p2 = Inl e"
    by (auto simp: penalty_body_def then_do_def split: sum.splits)
  with Inl show ?thesis by (simp add: calculate_popularity_penalty_def)
next
  case (Inr v)
  then obtain mx mn where mx: "num_item (popularity_stats d) ''max'' = Inr mx"
    and mn: "num_item (popularity_stats d) ''min'' = Inr mn"
    by (auto simp: penalty_body_def then_do_def split: sum.splits)
  define nrm where "nrm p = (if mx - mn > 0 then (p - mn) / (mx - mn) else 0.5)" for p :: real
  have pen: "calculate_popularity_penalty d p = 1 / (1 + exp (- 10 * (nrm p - 0.5)))" for p
    using mx mn
    by (simp add: calculate_popularity_penalty_def penalty_body_def then_do_def nrm_def Let_def)
  have "nrm p1 \<le> nrm p2"
    using assms by (simp add: nrm_def divide_right_mono)
  then have "exp (- 10 * (nrm p2 - 0.5)) \<le> exp (- 10 * (nrm p1 - 0.5))"
    by simp
  then have "1 / (1 + exp (- 10 * (nrm p1 - 0.5))) \<le> 1 / (1 + exp (- 10 * (nrm p2 - 0.5)))"
    by (intro divide_left_mono) (auto simp: add_pos_pos)
  then show ?thesis by (simp only: pen)
qed

lemma debias_rec_value:
  assumes "str_item x ''item_id'' = Inr i" and "num_item x ''score'' = Inr v"
    and "num_item (popularity_stats d) ''mean'' = Inr m"
  shows "debias_rec d tm x
         = Inr (debiased_entry x v (debiasing_strength d)
                 (calculate_popularity_penalty d
                    (case ti_popularity (lookup_track tm i) of None \<Rightarrow> m | Some p \<Rightarrow> p)))"
  using assms by (simp add: debias_rec_def then_do_def debiased_entry_def Let_def)

lemma debias_rec_wf:
  assumes "debias_rec d tm x = Inr x'"
  shows "\<not> isl (str_item x ''item_id'') \<and> \<not> isl (num_item x ''score'')
         \<and> \<not> isl (num_item (popularity_stats d) ''mean'')
         \<and> (\<exists>v. num_item x' ''score'' = Inr v)"
  using assms
  by (auto simp: debias_rec_def then_do_def Let_def num_item_def update_conv'
      split: sum.splits)

lemma debias_rec_fail:
  assumes "debias_rec d tm x = Inl e"
  shows "isl (str_item x ''item_id'') \<or> isl (num_item x ''score'')
         \<or> isl (num_item (popularity_stats d) ''mean'')"
  using assms
  by (auto simp: debias_rec_def then_do_def Let_def split: sum.splits)

lemma debias_loop_ok:
  "debiasable d recs \<Longrightarrow> \<exists>out. debias_loop d tm recs = Inr out"
proof (induction recs)
  case Nil
  then show ?case by simp
next
  case (Cons x xs)
  then have "debiasable d xs" by (simp add: debiasable_def)
  then obtain out where out: "debias_loop d tm xs = Inr out" using Cons.IH by blast
  have "\<exists>x'. debias_rec d tm x = Inr x'"
  proof (cases "debias_rec d tm x")
    case (Inl e)
    then show ?thesis using debias_rec_fail [OF Inl] Cons.prems by (auto simp: debiasable_def)
  next
    case (Inr x')
    then show ?thesis by blast
  qed
  then show ?case using out by (auto simp: then_do_def)
qed

lemma debias_loop_fail:
  "\<not> debiasable d recs \<Longrightarrow> recs \<noteq> [] \<Longrightarrow> \<exists>e. debias_loop d tm recs = Inl e"
proof (induction recs)
  case Nil
  then show ?case by simp
next
  case (Cons x xs)
  show ?case
  proof (cases "debias_rec d tm x")
    case (Inl e)
    then show ?thesis by (simp add: then_do_def)
  next
    case (Inr x')
    note wf = debias_rec_wf [OF Inr]
    then have nd: "\<not> debiasable d xs" using Cons.prems(1) by (auto simp: debiasable_def)
    then have "xs \<noteq> []" using wf by (auto simp: debiasable_def)
    then obtain e where "debias_loop d tm xs = Inl e" using Cons.IH nd by blast
    then show ?thesis using Inr by (simp add: then_do_def)
  qed
qed

lemma debias_loop_mem:
  "debias_loop d tm recs = Inr out \<Longrightarrow> r \<in> set recs \<Longrightarrow>
   \<exists>r'. debias_rec d tm r = Inr r' \<and> r' \<in> set out"
  by (induction recs arbitrary: out) (auto simp: then_do_def split: sum.splits)

lemma debias_loop_keys:
  "debias_loop d tm recs = Inr out \<Longrightarrow> \<exists>ks. num_keys ''score'' out = Inr ks"
proof (induction recs arbitrary: out)
  case Nil
  then show ?case by simp
next
  case (Cons x xs)
  then obtain x' out' where x': "debias_rec d tm x = Inr x'"
    and out': "debias_loop d tm xs = Inr out'" and out: "out = x' # out'"
    by (auto simp: then_do_def split: sum.splits)
  obtain v where "num_item x' ''score'' = Inr v" using debias_rec_wf [OF x'] by blast
  moreover obtain ks where "num_keys ''score'' out' = Inr ks" using Cons.IH [OF out'] by blast
  ultimately show ?case by (simp add: out then_do_def)
qed

lemma num_keys_length: "num_keys k xs = Inr ks \<Longrightarrow> length ks = length xs"
  by (induction xs arbitrary: ks) (auto simp: then_do_def split: sum.splits)

lemma sort_on_set:
  assumes "num_keys k xs = Inr ks"
  shows "\<exists>ys. sort_on k b xs = Inr ys \<and> set ys = set xs"
proof -
  have len: "length ks = length xs" using num_keys_length [OF assms] .
  have "set (map snd (zip ks xs)) = set xs" using len by simp
  then have "snd ` set (zip ks xs) = set xs" by simp
  then show ?thesis
    using assms by (simp add: sort_on_def then_do_def sorted_reverse_def sorted_by_def)
qed

lemma penalty_closed_form:
  "calculate_popularity_penalty d p =
     (case num_item (popularity_stats d) ''max'' of
        Inl e \<Rightarrow> 0
      | Inr mx \<Rightarrow>
          (case num_item (popularity_stats d) ''min'' of
             Inl e \<Rightarrow> 0
           | Inr mn \<Rightarrow>
               1 / (1 + exp (- 10 * ((if mx - mn > 0 then (p - mn) / (mx - mn) else 0.5) - 0.5)))))"
  by (simp add: calculate_popularity_penalty_def penalty_body_def then_do_def Let_def
      split: sum.splits)

lemma debias_scores_entry:
  assumes mem: "r \<in> set recommendations"
    and item: "map_of r ''item_id'' = Some (Str item)"
    and score: "map_of r ''score'' = Some (Num s)"
    and p: "ti_popularity (lookup_track tm item) = Some p"
  shows "(if debiasable d recommendations
          then debiased_entry r s (debiasing_strength d) (calculate_popularity_penalty d p)
          else r) \<in> set (debias_scores d recommendations tm)"
proof (cases "debiasable d recommendations")
  case True
  then obtain m where m: "num_item (popularity_stats d) ''mean'' = Inr m"
    by (cases "num_item (popularity_stats d) ''mean''") (auto simp: debiasable_def)
  obtain out where out: "debias_loop d tm recommendations = Inr out"
    using debias_loop_ok [OF True] by blast
  have "debias_rec d tm r
        = Inr (debiased_entry r s (debiasing_strength d) (calculate_popularity_penalty d p))"
    using debias_rec_value [of r item s d m tm] item score m p
    by (simp add: str_item_def num_item_def)
  then have "debiased_entry r s (debiasing_strength d) (calculate_popularity_penalty d p)
             \<in> set out"
    using debias_loop_mem [OF out mem] by auto
  moreover obtain ks where "num_keys ''score'' out = Inr ks"
    using debias_loop_keys [OF out] by blast
  then obtain ys where "sort_on ''score'' True out = Inr ys" "set ys = set out"
    using sort_on_set by blast
  ultimately show ?thesis using True out by (simp add: debias_scores_def then_do_def)
next
  case False
  have "recommendations \<noteq> []" using mem by auto
  then obtain e where "debias_loop d tm recommendations = Inl e"
    using debias_loop_fail [OF False] by blast
  then show ?thesis using False mem by (simp add: debias_scores_def then_do_def)
qed

lemma debiased_entry_score:
  "map_of (debiased_entry r s strength penalty) ''score'' = Some (Num (s * (1 - strength * penalty)))"
  by (simp add: debiased_entry_def update_conv')

text \<open>
  C3, as amended. Take a debiasing strength and an original score \<open>s\<close> that are not
  negative, any list that contains an entry \<open>r\<close> of the track with that score, and
  track metadata \<open>tm1\<close> and \<open>tm2\<close> that give the track the popularities \<open>p1 \<le> p2\<close>.
  Where the list is debiasable, \<^verbatim>\<open>debias_scores\<close> returns the entry with the score
  \<open>s * (1 - strength * penalty)\<close>, the penalty being
  \<open>1 / (1 + exp (-10 * (normalized_popularity - 0.5)))\<close> for fitted statistics (0 where
  the minimum or maximum is missing); on its error path it returns the entry as it is.
  In both cases the score it returns at \<open>p2\<close> is at most the score it returns at \<open>p1\<close>.
\<close>

theorem debias_score_monotone:
  assumes str: "0 \<le> debiasing_strength d" and s0: "0 \<le> s"
    and mem: "r \<in> set recommendations"
    and item: "map_of r ''item_id'' = Some (Str item)"
    and score: "map_of r ''score'' = Some (Num s)"
    and p1: "ti_popularity (lookup_track tm1 item) = Some p1"
    and p2: "ti_popularity (lookup_track tm2 item) = Some p2"
    and le: "p1 \<le> p2"
  shows "\<exists>r1 r2 s1 s2.
           s1 = (if debiasable d recommendations
                 then s * (1 - debiasing_strength d * calculate_popularity_penalty d p1) else s)
         \<and> s2 = (if debiasable d recommendations
                 then s * (1 - debiasing_strength d * calculate_popularity_penalty d p2) else s)
         \<and> r1 = (if debiasable d recommendations
                 then debiased_entry r s (debiasing_strength d) (calculate_popularity_penalty d p1)
                 else r)
         \<and> r2 = (if debiasable d recommendations
                 then debiased_entry r s (debiasing_strength d) (calculate_popularity_penalty d p2)
                 else r)
         \<and> r1 \<in> set (debias_scores d recommendations tm1)
         \<and> r2 \<in> set (debias_scores d recommendations tm2)
         \<and> map_of r1 ''score'' = Some (Num s1) \<and> map_of r2 ''score'' = Some (Num s2)
         \<and> s2 \<le> s1
         \<and> calculate_popularity_penalty d p =
             (case num_item (popularity_stats d) ''max'' of
                Inl e \<Rightarrow> 0
              | Inr mx \<Rightarrow>
                  (case num_item (popularity_stats d) ''min'' of
                     Inl e \<Rightarrow> 0
                   | Inr mn \<Rightarrow>
                       1 / (1 + exp (- 10 * ((if mx - mn > 0 then (p - mn) / (mx - mn) else 0.5)
                                             - 0.5)))))"
proof -
  have "debiasing_strength d * calculate_popularity_penalty d p1
        \<le> debiasing_strength d * calculate_popularity_penalty d p2"
    using penalty_mono [OF le] str by (simp add: mult_left_mono)
  then have ineq: "s * (1 - debiasing_strength d * calculate_popularity_penalty d p2)
        \<le> s * (1 - debiasing_strength d * calculate_popularity_penalty d p1)"
    using s0 by (intro mult_left_mono) auto
  show ?thesis
    using debias_scores_entry [OF mem item score p1, of d]
      debias_scores_entry [OF mem item score p2, of d]
      ineq score penalty_closed_form [of d p]
    by (simp add: debiased_entry_score)
qed

text \<open>
  An instance: a list of two entries, the second of which is the track \<^verbatim>\<open>t\<close> with
  score 1, at the popularities 10 and 90.
\<close>

theorem debias_score_monotone_witness:
  "0 \<le> debiasing_strength example_debiaser
   \<and> debiasable example_debiaser
        [[(''item_id'', Str ''u''), (''score'', Num 2)], [(''item_id'', Str ''t''), (''score'', Num 1)]]
   \<and> debiased_entry [(''item_id'', Str ''t''), (''score'', Num 1)] 1
        (debiasing_strength example_debiaser) (calculate_popularity_penalty example_debiaser 10)
      \<in> set (debias_scores example_debiaser
        [[(''item_id'', Str ''u''), (''score'', Num 2)], [(''item_id'', Str ''t''), (''score'', Num 1)]]
        (example_track 10))
   \<and> debiased_entry [(''item_id'', Str ''t''), (''score'', Num 1)] 1
        (debiasing_strength example_debiaser) (calculate_popularity_penalty example_debiaser 90)
      \<in> set (debias_scores example_debiaser
        [[(''item_id'', Str ''u''), (''score'', Num 2)], [(''item_id'', Str ''t''), (''score'', Num 1)]]
        (example_track 90))
   \<and> 1 * (1 - debiasing_strength example_debiaser
                 * calculate_popularity_penalty example_debiaser 90)
     \<le> 1 * (1 - debiasing_strength example_debiaser
                 * calculate_popularity_penalty example_debiaser (10::real))"
proof -
  have deb: "debiasable example_debiaser
        [[(''item_id'', Str ''u''), (''score'', Num 2)], [(''item_id'', Str ''t''), (''score'', Num 1)]]"
    by (simp add: debiasable_def example_debiaser_def num_item_def str_item_def)
  have h1: "0 \<le> debiasing_strength example_debiaser" by (simp add: example_debiaser_def)
  have h2: "(0::real) \<le> 1" by simp
  have h3: "[(''item_id'', Str ''t''), (''score'', Num 1)]
            \<in> set [[(''item_id'', Str ''u''), (''score'', Num 2)],
                    [(''item_id'', Str ''t''), (''score'', Num 1)]]" by simp
  have h4: "map_of [(''item_id'', Str ''t''), (''score'', Num 1)] ''item_id'' = Some (Str ''t'')"
    by simp
  have h5: "map_of [(''item_id'', Str ''t''), (''score'', Num 1)] ''score'' = Some (Num 1)"
    by simp
  have h6: "ti_popularity (lookup_track (example_track 10) ''t'') = Some 10"
    by (simp add: lookup_track_def example_track_def)
  have h7: "ti_popularity (lookup_track (example_track 90) ''t'') = Some 90"
    by (simp add: lookup_track_def example_track_def)
  have h8: "(10::real) \<le> 90" by simp
  from debias_score_monotone [OF h1 h2 h3 h4 h5 h6 h7 h8, of 0]
  obtain r1 r2 s1 s2 where
    "s1 = (if debiasable example_debiaser
                  [[(''item_id'', Str ''u''), (''score'', Num 2)],
                   [(''item_id'', Str ''t''), (''score'', Num 1)]]
           then 1 * (1 - debiasing_strength example_debiaser
                         * calculate_popularity_penalty example_debiaser 10) else 1)"
    "s2 = (if debiasable example_debiaser
                  [[(''item_id'', Str ''u''), (''score'', Num 2)],
                   [(''item_id'', Str ''t''), (''score'', Num 1)]]
           then 1 * (1 - debiasing_strength example_debiaser
                         * calculate_popularity_penalty example_debiaser 90) else 1)"
    "r1 = (if debiasable example_debiaser
                  [[(''item_id'', Str ''u''), (''score'', Num 2)],
                   [(''item_id'', Str ''t''), (''score'', Num 1)]]
           then debiased_entry [(''item_id'', Str ''t''), (''score'', Num 1)] 1
                  (debiasing_strength example_debiaser)
                  (calculate_popularity_penalty example_debiaser 10)
           else [(''item_id'', Str ''t''), (''score'', Num 1)])"
    "r2 = (if debiasable example_debiaser
                  [[(''item_id'', Str ''u''), (''score'', Num 2)],
                   [(''item_id'', Str ''t''), (''score'', Num 1)]]
           then debiased_entry [(''item_id'', Str ''t''), (''score'', Num 1)] 1
                  (debiasing_strength example_debiaser)
                  (calculate_popularity_penalty example_debiaser 90)
           else [(''item_id'', Str ''t''), (''score'', Num 1)])"
    "r1 \<in> set (debias_scores example_debiaser
        [[(''item_id'', Str ''u''), (''score'', Num 2)], [(''item_id'', Str ''t''), (''score'', Num 1)]]
        (example_track 10))"
    "r2 \<in> set (debias_scores example_debiaser
        [[(''item_id'', Str ''u''), (''score'', Num 2)], [(''item_id'', Str ''t''), (''score'', Num 1)]]
        (example_track 90))"
    "s2 \<le> s1"
    by blast
  then show ?thesis using deb h1 by (simp only: if_True simp_thms)
qed

text \<open>
  C3 as stated fails for a negative original score: with strength 0.5, popularities
  from 0 to 100 and the score \<open>-1\<close>, the track gets \<open>-3/4\<close> at popularity 50 and a
  larger score at popularity 100.
\<close>

theorem debias_score_negative_counterexample:
  "map (\<lambda>x. map_of x ''score'')
     (debias_scores \<lparr>debiasing_strength = 0.5,
         popularity_stats = [(''mean'', Num 50), (''min'', Num 0), (''max'', Num 100)]\<rparr>
       [[(''item_id'', Str ''t''), (''score'', Num (- 1))]]
       [(''t'', \<lparr>ti_artist_id = None, ti_popularity = Some 50, ti_genres = None, ti_audio = []\<rparr>)])
   = [Some (Num (- (3 / 4)))]
   \<and> map (\<lambda>x. map_of x ''score'')
     (debias_scores \<lparr>debiasing_strength = 0.5,
         popularity_stats = [(''mean'', Num 50), (''min'', Num 0), (''max'', Num 100)]\<rparr>
       [[(''item_id'', Str ''t''), (''score'', Num (- 1))]]
       [(''t'', \<lparr>ti_artist_id = None, ti_popularity = Some 100, ti_genres = None, ti_audio = []\<rparr>)])
   = [Some (Num (- (1 - 0.5 * (1 / (1 + exp (- 5))))))]
   \<and> \<not> (- (1 - 0.5 * (1 / (1 + exp (- 5)))) \<le> - (3 / (4::real)))"
proof -
  have e: "exp (- 5 :: real) < 1" by simp
  have pos: "0 < 1 + exp (- 5 :: real)" by (rule add_pos_pos) simp_all
  have "1 / 2 < 1 / (1 + exp (- 5 :: real))"
    unfolding pos_less_divide_eq [OF pos] using e by simp
  moreover have "1 / 2 < x \<Longrightarrow> \<not> (- (1 - 0.5 * x) \<le> - (3 / (4::real)))" for x :: real
    by linarith
  ultimately have ineq: "\<not> (- (1 - 0.5 * (1 / (1 + exp (- 5)))) \<le> - (3 / (4::real)))"
    by blast
  show ?thesis
    using ineq
    by (simp add: debias_scores_def debias_rec_def then_do_def str_item_def num_item_def
      lookup_track_def calculate_popularity_penalty_def penalty_body_def sort_on_def
      sorted_reverse_def Let_def update_conv')
qed

subsection \<open>Fairness enforcement\<close>

lemma mark_niche_flagged:
  assumes "list_all2 flagged recs xs"
  shows "list_all2 flagged recs (mark_niche i xs)"
proof (cases "i < length xs")
  case False
  then show ?thesis using assms by (simp add: mark_niche_def list_update_beyond not_less)
next
  case True
  have "flagged (recs ! i) (xs ! i)" using assms True by (simp add: list_all2_conv_all_nth)
  then have "flagged (recs ! i) (AList.update ''needs_niche_replacement'' (Flag True) (xs ! i))"
    by (auto simp: flagged_def)
  moreover have "\<forall>j < length xs. flagged (recs ! j) (xs ! j)"
    using assms by (simp add: list_all2_conv_all_nth)
  moreover have "length recs = length xs" using assms by (simp add: list_all2_lengthD)
  ultimately show ?thesis using True
    by (auto simp: mark_niche_def list_all2_conv_all_nth nth_list_update)
qed

lemma fold_mark_niche_flagged:
  "list_all2 flagged recs xs \<Longrightarrow> list_all2 flagged recs (fold mark_niche idxs xs)"
  by (induction idxs arbitrary: xs) (simp_all add: mark_niche_flagged)

lemma flagged_refl: "list_all2 flagged recs recs"
  by (simp add: list_all2_conv_all_nth flagged_def)

lemma apply_corrections_flagged:
  "list_all2 flagged recs (apply_fairness_corrections fe recs v tm)"
  by (auto simp: apply_fairness_corrections_def corrections_body_def then_do_def Let_def
        flagged_refl fold_mark_niche_flagged split: sum.splits option.splits)

lemma enforce_fairness_flagged:
  "list_all2 flagged recs (enforce_fairness fe recs tm am)"
  by (auto simp: enforce_fairness_def Let_def flagged_refl apply_corrections_flagged
        split: sum.splits prod.splits)

lemma flagged_map_of:
  "flagged r r' \<Longrightarrow> k \<noteq> ''needs_niche_replacement'' \<Longrightarrow> map_of r' k = map_of r k"
  unfolding flagged_def by (auto simp only: update_conv' fun_upd_apply split: if_splits)

lemma flagged_keeps:
  assumes "list_all2 flagged recs res" and "k \<noteq> ''needs_niche_replacement''"
  shows "map (\<lambda>r. map_of r k) res = map (\<lambda>r. map_of r k) recs"
proof (rule nth_equalityI)
  show "length (map (\<lambda>r. map_of r k) res) = length (map (\<lambda>r. map_of r k) recs)"
    using assms(1) by (simp add: list_all2_lengthD)
next
  fix i assume "i < length (map (\<lambda>r. map_of r k) res)"
  then have i: "i < length res" by simp
  then have "flagged (recs ! i) (res ! i)"
    using assms(1) by (simp add: list_all2_conv_all_nth)
  then have "map_of (res ! i) k = map_of (recs ! i) k"
    using assms(2) by (rule flagged_map_of)
  moreover have "length recs = length res" using assms(1) by (simp add: list_all2_lengthD)
  ultimately show "map (\<lambda>r. map_of r k) res ! i = map (\<lambda>r. map_of r k) recs ! i"
    using i by simp
qed

text \<open>
  C8. The list \<^verbatim>\<open>enforce_fairness\<close> returns has the entries of its input, in the same
  order: each entry is returned as it is or with the flag \<^verbatim>\<open>needs_niche_replacement\<close>
  set, so the item ids and the scores are those of the input. This holds for every
  input, in particular when the niche ratio is below the configured minimum.
\<close>

theorem enforce_fairness_only_flags:
  "list_all2 flagged recommendations (enforce_fairness fe recommendations tm am)
   \<and> map (\<lambda>r. map_of r ''item_id'') (enforce_fairness fe recommendations tm am)
       = map (\<lambda>r. map_of r ''item_id'') recommendations
   \<and> map (\<lambda>r. map_of r ''score'') (enforce_fairness fe recommendations tm am)
       = map (\<lambda>r. map_of r ''score'') recommendations"
  using enforce_fairness_flagged [of recommendations fe tm am]
    flagged_keeps [of recommendations "enforce_fairness fe recommendations tm am"]
  by simp

text \<open>
  An instance with a niche ratio of 0 below the minimum 0.5: the entry of the mainstream
  artist is flagged, and nothing else changes.
\<close>

theorem enforce_fairness_only_flags_witness:
  "enforce_fairness \<lparr>min_niche_ratio = 0.5, min_diverse_genres = 3,
                      artist_stats = [(''niche'', []), (''mainstream'', [''A''])]\<rparr>
      [[(''item_id'', Str ''t1''), (''score'', Num 0.9)],
       [(''item_id'', Str ''t2''), (''score'', Num 0.5)]]
      [(''t1'', \<lparr>ti_artist_id = Some ''A'', ti_popularity = Some 90, ti_genres = None, ti_audio = []\<rparr>),
       (''t2'', \<lparr>ti_artist_id = Some ''B'', ti_popularity = Some 50, ti_genres = None, ti_audio = []\<rparr>)]
      []
   = [[(''item_id'', Str ''t1''), (''score'', Num 0.9), (''needs_niche_replacement'', Flag True)],
       [(''item_id'', Str ''t2''), (''score'', Num 0.5)]]
   \<and> list_all2 flagged
      [[(''item_id'', Str ''t1''), (''score'', Num 0.9)],
       [(''item_id'', Str ''t2''), (''score'', Num 0.5)]]
      (enforce_fairness \<lparr>min_niche_ratio = 0.5, min_diverse_genres = 3,
                      artist_stats = [(''niche'', []), (''mainstream'', [''A''])]\<rparr>
      [[(''item_id'', Str ''t1''), (''score'', Num 0.9)],
       [(''item_id'', Str ''t2''), (''score'', Num 0.5)]]
      [(''t1'', \<lparr>ti_artist_id = Some ''A'', ti_popularity = Some 90, ti_genres = None, ti_audio = []\<rparr>),
       (''t2'', \<lparr>ti_artist_id = Some ''B'', ti_popularity = Some 50, ti_genres = None, ti_audio = []\<rparr>)]
      [])"
proof -
  have "enforce_fairness \<lparr>min_niche_ratio = 0.5, min_diverse_genres = 3,
                      artist_stats = [(''niche'', []), (''mainstream'', [''A''])]\<rparr>
      [[(''item_id'', Str ''t1''), (''score'', Num 0.9)],
       [(''item_id'', Str ''t2''), (''score'', Num 0.5)]]
      [(''t1'', \<lparr>ti_artist_id = Some ''A'', ti_popularity = Some 90, ti_genres = None, ti_audio = []\<rparr>),
       (''t2'', \<lparr>ti_artist_id = Some ''B'', ti_popularity = Some 50, ti_genres = None, ti_audio = []\<rparr>)]
      []
   = [[(''item_id'', Str ''t1''), (''score'', Num 0.9), (''needs_niche_replacement'', Flag True)],
       [(''item_id'', Str ''t2''), (''score'', Num 0.5)]]"
    by (simp add: enforce_fairness_def then_do_def str_item_def lookup_track_def truthy_def
      lookup_artist_def no_artist_def check_fairness_violations_def artist_group_def Let_def
      apply_fairness_corrections_def corrections_body_def num_item_def py_int_def slice_to_def
      mark_niche_def)
  then show ?thesis
    using enforce_fairness_only_flags [of
      "[[(''item_id'', Str ''t1''), (''score'', Num 0.9)],
       [(''item_id'', Str ''t2''), (''score'', Num 0.5)]]"
      "\<lparr>min_niche_ratio = 0.5, min_diverse_genres = 3,
                      artist_stats = [(''niche'', []), (''mainstream'', [''A''])]\<rparr>"
      "[(''t1'', \<lparr>ti_artist_id = Some ''A'', ti_popularity = Some 90, ti_genres = None, ti_audio = []\<rparr>),
       (''t2'', \<lparr>ti_artist_id = Some ''B'', ti_popularity = Some 50, ti_genres = None, ti_audio = []\<rparr>)]"
      "[]"]
    by simp
qed


subsection \<open>Diversity injection\<close>

lemmas eval_defs = then_do_def str_item_def num_item_def slice_to_def slice_from_def
  sorted_reverse_def sorted_by_def sort_on_def py_int_def Let_def

lemmas injector_defs = inject_diversity_def example_injector_def example_recommendations_def
  calculate_diversity_score_def diversity_score_body_def lookup_track_def no_track_def
  audio_features_def combined_score_def

lemma sort_on_length: "sort_on k b xs = Inr ys \<Longrightarrow> length ys = length xs"
  by (auto simp: sort_on_def then_do_def sorted_reverse_def sorted_by_def
      dest: num_keys_length split: sum.splits)

lemma combined_loop_length: "length (fst (combined_loop s xs)) = length xs"
  by (induction xs) (auto split: sum.splits prod.splits)

lemma py_int_bounds:
  assumes "0 \<le> s" and "s \<le> 1"
  shows "0 \<le> py_int (real n * s) \<and> py_int (real n * s) \<le> int n"
proof -
  have a: "0 \<le> real n * s" using assms by simp
  have "real n * s \<le> real n" using assms by (simp add: mult_left_le)
  then have "\<lfloor>real n * s\<rfloor> \<le> int n" by linarith
  moreover have "0 \<le> \<lfloor>real n * s\<rfloor>" using a by simp
  ultimately show ?thesis using a by (simp add: py_int_def)
qed

text \<open>
  C6, as amended. For a diversity strength between 0 and 1 (the default is 0.3), the list
  \<^verbatim>\<open>inject_diversity\<close> returns is never longer than its input list, for every input
  list, candidate pool, user and track metadata, on the error paths too.
\<close>

theorem inject_diversity_length:
  assumes "0 \<le> diversity_strength injector" and "diversity_strength injector \<le> 1"
  shows "length (fst (inject_diversity injector user_id recommendations candidate_pool tm))
         \<le> length recommendations"
proof (cases "map_of (user_profiles injector) user_id")
  case None
  then show ?thesis by (simp add: inject_diversity_def)
next
  case (Some profile)
  show ?thesis
  proof (cases "then_do (item_ids_of recommendations) (\<lambda>ids.
                then_do (diversity_candidates profile tm (set ids) candidate_pool)
                  (sort_on ''diversity_score'' True))")
    case (Inl e)
    then show ?thesis using Some by (simp add: inject_diversity_def)
  next
    case (Inr candidates)
    note cands = Inr
    show ?thesis
    proof (cases "sort_on ''score'' False recommendations")
      case (Inl e)
      then show ?thesis using Some cands by (simp add: inject_diversity_def)
    next
      case (Inr sorted_recs)
      define n where "n = py_int (real (length recommendations) * diversity_strength injector)"
      define kept where "kept = slice_from n sorted_recs"
      define looped where "looped = combined_loop (diversity_strength injector)
                                   (kept @ slice_to n candidates)"
      define caller where "caller = take (length sorted_recs - length kept) sorted_recs
                                 @ take (length kept) (fst looped)"
      have len: "length sorted_recs = length recommendations"
        using sort_on_length [OF Inr] .
      have nb: "0 \<le> n" "n \<le> int (length recommendations)"
        using py_int_bounds [OF assms] by (simp_all add: n_def)
      have lk: "length kept = length recommendations - nat n"
        using nb len by (simp add: kept_def slice_from_def)
      have ll: "length (fst looped) = length kept + length (slice_to n candidates)"
        by (simp add: looped_def combined_loop_length)
      have ls: "length (slice_to n candidates) \<le> nat n"
        using nb by (simp add: slice_to_def)
      have lc: "length caller = length recommendations"
        using len lk ll by (simp add: caller_def)
      have ld: "length (fst looped) \<le> length recommendations"
        using ll lk ls nb by linarith
      have res: "inject_diversity injector user_id recommendations candidate_pool tm
            = (case snd looped of
                 Some e \<Rightarrow> (caller, caller)
               | None \<Rightarrow>
                   (case sort_on ''combined_score'' True (fst looped) of
                      Inl e \<Rightarrow> (caller, caller)
                    | Inr result \<Rightarrow> (result, caller)))"
        unfolding caller_def looped_def kept_def n_def inject_diversity_def Let_def
        using Some cands Inr by simp
      show ?thesis
        unfolding res using lc ld
        by (auto split: option.splits sum.splits dest: sort_on_length)
    qed
  qed
qed

theorem inject_diversity_length_witness:
  "0 \<le> diversity_strength (example_injector 0.3)
   \<and> diversity_strength (example_injector 0.3) \<le> 1
   \<and> map (\<lambda>r. map_of r ''item_id'')
       (fst (inject_diversity (example_injector 0.3) ''u'' example_recommendations
          [[(''item_id'', Str ''x''), (''score'', Num 2.5)]] []))
      = [Some (Str ''a''), Some (Str ''b''), Some (Str ''x''), Some (Str ''c'')]
   \<and> length (fst (inject_diversity (example_injector 0.3) ''u'' example_recommendations
          [[(''item_id'', Str ''x''), (''score'', Num 2.5)]] []))
      \<le> length example_recommendations"
proof -
  have "map (\<lambda>r. map_of r ''item_id'')
       (fst (inject_diversity (example_injector 0.3) ''u'' example_recommendations
          [[(''item_id'', Str ''x''), (''score'', Num 2.5)]] []))
      = [Some (Str ''a''), Some (Str ''b''), Some (Str ''x''), Some (Str ''c'')]"
    by (simp add: injector_defs eval_defs)
  moreover have s: "0 \<le> diversity_strength (example_injector 0.3)"
    "diversity_strength (example_injector 0.3) \<le> 1"
    by (simp_all add: example_injector_def)
  ultimately show ?thesis
    using inject_diversity_length [OF s, of "''u''" example_recommendations
        "[[(''item_id'', Str ''x''), (''score'', Num 2.5)]]" "[]"]
    by simp
qed

text \<open>
  C6 as stated fails for a strength above 1: with strength 2, one recommendation and two
  candidates, \<open>n_replacements\<close> is 2, the slice of the recommendations is empty and both
  candidates are returned.
\<close>

theorem inject_diversity_strength_counterexample:
  "map (\<lambda>r. map_of r ''item_id'')
     (fst (inject_diversity (example_injector 2) ''u''
        [[(''item_id'', Str ''r1''), (''score'', Num 1)]]
        [[(''item_id'', Str ''c1''), (''score'', Num 0.5)],
         [(''item_id'', Str ''c2''), (''score'', Num 0.4)]] []))
    = [Some (Str ''c1''), Some (Str ''c2'')]
   \<and> \<not> length (fst (inject_diversity (example_injector 2) ''u''
        [[(''item_id'', Str ''r1''), (''score'', Num 1)]]
        [[(''item_id'', Str ''c1''), (''score'', Num 0.5)],
         [(''item_id'', Str ''c2''), (''score'', Num 0.4)]] []))
      \<le> length [[(''item_id'', Str ''r1''), (''score'', Num 1)]]"
  by (simp add: injector_defs eval_defs)

subsection \<open>The error paths\<close>

lemma debias_scores_error:
  "debias_loop d tm recommendations = Inl e \<Longrightarrow> debias_scores d recommendations tm = recommendations"
  by (simp add: debias_scores_def then_do_def)

text \<open>
  C7. The claim is that on the error path a method returns the caller's list unmodified
  and in its original order. \<^verbatim>\<open>debias_scores\<close> does (lemma \<open>debias_scores_error\<close>);
  \<^verbatim>\<open>inject_diversity\<close> does not. With the default strength 0.3, four recommendations
  \<open>a, b, c, d\<close> of scores 4, 3, 2, 1 and a candidate that has no \<^verbatim>\<open>score\<close>, the source
  sorts the caller's list in place, sets \<^verbatim>\<open>combined_score\<close> on three of its entries,
  raises \<^verbatim>\<open>KeyError\<close> at the candidate and returns the list in the order \<open>d, c, b, a\<close>.
\<close>

theorem inject_diversity_error_reorders:
  "inject_diversity (example_injector 0.3) ''u'' example_recommendations
     [[(''item_id'', Str ''x'')]] []
   = ([[(''item_id'', Str ''d''), (''score'', Num 1)],
       [(''item_id'', Str ''c''), (''score'', Num 2), (''combined_score'', Num 2)],
       [(''item_id'', Str ''b''), (''score'', Num 3), (''combined_score'', Num 3)],
       [(''item_id'', Str ''a''), (''score'', Num 4), (''combined_score'', Num 4)]],
      [[(''item_id'', Str ''d''), (''score'', Num 1)],
       [(''item_id'', Str ''c''), (''score'', Num 2), (''combined_score'', Num 2)],
       [(''item_id'', Str ''b''), (''score'', Num 3), (''combined_score'', Num 3)],
       [(''item_id'', Str ''a''), (''score'', Num 4), (''combined_score'', Num 4)]])
   \<and> fst (inject_diversity (example_injector 0.3) ''u'' example_recommendations
            [[(''item_id'', Str ''x'')]] []) \<noteq> example_recommendations"
  by (simp add: injector_defs eval_defs)

section \<open>Properties of the recommendation models\<close>

subsection \<open>Content-based recommendations\<close>

lemma add_similar_keys:
  "fst ` set acc \<inter> set liked = {} \<Longrightarrow> fst ` set (add_similar liked ps acc) \<inter> set liked = {}"
proof (induction ps arbitrary: acc)
  case Nil
  then show ?case by simp
next
  case (Cons p ps)
  obtain i s where p: "p = (i, s)" by (cases p)
  show ?case
    unfolding p add_similar.simps
    by (rule Cons.IH) (use Cons.prems in \<open>auto simp: dom_update split: option.splits\<close>)
qed

lemma liked_loop_keys:
  "fst ` set acc \<inter> set liked = {} \<Longrightarrow>
   fst ` set (liked_loop ext cbf liked n items acc) \<inter> set liked = {}"
  by (induction items arbitrary: acc) (simp_all add: add_similar_keys)

lemma set_sorted_reverse: "set (sorted_reverse f xs) = set xs"
  by (simp add: sorted_reverse_def)

lemma set_slice_to: "set (slice_to n xs) \<subseteq> set xs"
  by (auto simp: slice_to_def dest: in_set_takeD)

text \<open>
  C10. No item that \<^verbatim>\<open>recommend_for_user\<close> returns is among the liked items, for every
  content model (fitted or not), every \<^verbatim>\<open>argsort\<close>, every list of liked items and
  every count.
\<close>

theorem recommend_for_user_not_liked:
  "fst ` set (recommend_for_user ext cbf liked n) \<inter> set liked = {}"
proof -
  have "fst ` set (liked_loop ext cbf liked n liked []) \<inter> set liked = {}"
    by (rule liked_loop_keys) simp
  then show ?thesis
    using set_slice_to [of n "sorted_reverse snd (liked_loop ext cbf liked n liked [])"]
    by (auto simp: recommend_for_user_def set_sorted_reverse)
qed

text \<open>
  An instance: three items, of which \<open>a\<close> and \<open>b\<close> are liked; each is the most similar
  item of the other, and only \<open>c\<close> is recommended, with the sum of its two similarities.
\<close>

theorem recommend_for_user_not_liked_witness:
  "recommend_for_user example_externals
     \<lparr>similarity_matrix = Some [[1, 0.9, 0.2], [0.9, 1, 0.5], [0.2, 0.5, 1]],
      cbf_item_ids = Some [''a'', ''b'', ''c'']\<rparr> [''a'', ''b''] 2
   = [(''c'', 0.7)]
   \<and> fst ` set (recommend_for_user example_externals
     \<lparr>similarity_matrix = Some [[1, 0.9, 0.2], [0.9, 1, 0.5], [0.2, 0.5, 1]],
      cbf_item_ids = Some [''a'', ''b'', ''c'']\<rparr> [''a'', ''b''] 2) \<inter> set [''a'', ''b''] = {}"
proof -
  have "recommend_for_user example_externals
     \<lparr>similarity_matrix = Some [[1, 0.9, 0.2], [0.9, 1, 0.5], [0.2, 0.5, 1]],
      cbf_item_ids = Some [''a'', ''b'', ''c'']\<rparr> [''a'', ''b''] 2
   = [(''c'', 0.7)]"
    by (simp add: recommend_for_user_def get_similar_items_def similar_body_def
        example_externals_def eval_defs)
  then show ?thesis
    using recommend_for_user_not_liked [of example_externals
       "\<lparr>similarity_matrix = Some [[1, 0.9, 0.2], [0.9, 1, 0.5], [0.2, 0.5, 1]],
         cbf_item_ids = Some [''a'', ''b'', ''c'']\<rparr>" "[''a'', ''b'']" 2]
    by simp
qed

subsection \<open>Hybrid recommendations\<close>

lemma sorted_reverse_descending:
  "sorted_wrt (\<lambda>a b. f b \<le> f a) (sorted_reverse f xs)"
proof -
  have "sorted (map f (sort_key f (rev xs)))" by simp
  then have "sorted_wrt (\<lambda>a b. f a \<le> f b) (sort_key f (rev xs))"
    by (simp add: sorted_map)
  then show ?thesis by (simp add: sorted_reverse_def sorted_wrt_rev)
qed

lemma sorted_reverse_stable:
  "filter (\<lambda>x. f x = v) (sorted_reverse f xs) = filter (\<lambda>x. f x = v) xs"
  by (simp add: sorted_reverse_def rev_filter [symmetric] sort_key_stable)

lemma slice_to_prefix: "prefix (slice_to n xs) xs"
  by (simp add: slice_to_def take_is_prefix)

lemma sorted_wrt_slice_to: "sorted_wrt P xs \<Longrightarrow> sorted_wrt P (slice_to n xs)"
  by (simp add: slice_to_def)

lemma entry_pair_entry: "entry_pair (recommendation_entry ext p) = Some p"
  by (simp add: entry_pair_def recommendation_entry_def)

text \<open>
  C1, as amended. For a count \<open>n \<ge> 0\<close>, \<^verbatim>\<open>recommend\<close> returns at most \<open>n\<close> entries;
  their (item, score) pairs \<open>ranked\<close> are in descending order of score; and for every
  score \<open>v\<close>, the entries of score \<open>v\<close> are, in the same order, the first entries of score
  \<open>v\<close> of the dictionary \<^verbatim>\<open>all_scores\<close>: ties keep the order of insertion. This holds
  for every system (fitted or not), regressor, \<^verbatim>\<open>argsort\<close>, \<^verbatim>\<open>hash\<close> and input.
\<close>

theorem recommend_top_n:
  assumes "0 \<le> n"
  shows "\<exists>ranked. map entry_pair (recommend ext hs user_id liked n boost) = map Some ranked
        \<and> int (length (recommend ext hs user_id liked n boost)) \<le> n
        \<and> sorted_wrt (\<lambda>a b. snd b \<le> snd a) ranked
        \<and> (\<forall>all_scores. hybrid_scores ext hs user_id liked n boost = Inr all_scores \<longrightarrow>
             (\<forall>v. prefix (filter (\<lambda>p. snd p = v) ranked)
                         (filter (\<lambda>p. snd p = v) all_scores)))"
proof (cases "hybrid_scores ext hs user_id liked n boost")
  case (Inl e)
  then show ?thesis using assms by (simp add: recommend_def)
next
  case (Inr all_scores)
  define ranked where "ranked = slice_to n (sorted_reverse snd all_scores)"
  have r: "recommend ext hs user_id liked n boost = map (recommendation_entry ext) ranked"
    using Inr by (simp add: recommend_def ranked_def)
  have "map entry_pair (recommend ext hs user_id liked n boost) = map Some ranked"
    by (simp add: r entry_pair_entry comp_def)
  moreover have "int (length (recommend ext hs user_id liked n boost)) \<le> n"
    using assms by (simp add: r ranked_def slice_to_def)
  moreover have "sorted_wrt (\<lambda>a b. snd b \<le> snd a) ranked"
    unfolding ranked_def by (intro sorted_wrt_slice_to sorted_reverse_descending)
  moreover have "prefix (filter (\<lambda>p. snd p = v) ranked) (filter (\<lambda>p. snd p = v) all_scores)" for v
  proof -
    have "prefix (filter (\<lambda>p. snd p = v) ranked)
                 (filter (\<lambda>p. snd p = v) (sorted_reverse snd all_scores))"
      unfolding ranked_def by (intro filter_mono_prefix slice_to_prefix)
    then show ?thesis by (simp add: sorted_reverse_stable)
  qed
  ultimately show ?thesis using Inr by auto
qed

text \<open>
  An instance: three popular items, of which \<open>a\<close> and \<open>c\<close> have the same score; with
  \<open>n = 2\<close> the result is \<open>b\<close>, then \<open>a\<close>, which was inserted before \<open>c\<close>.
\<close>

theorem recommend_top_n_witness:
  "(0::int) \<le> 2
   \<and> map entry_pair (recommend example_externals
       (example_hybrid [(''a'', 0.5), (''b'', 0.9), (''c'', 0.5)]) ''u'' [] 2 0)
     = [Some (''b'', 0.09), Some (''a'', 0.05)]"
  using recommend_top_n [of 2 example_externals
      "example_hybrid [(''a'', 0.5), (''b'', 0.9), (''c'', 0.5)]" "''u''" "[]" 0]
  by (simp add: recommend_def hybrid_scores_def example_hybrid_def example_externals_def
      recommend_for_user_def get_popular_items_def entry_pair_def recommendation_entry_def
      eval_defs)

text \<open>
  C1 as stated fails for a negative count, which the slices read from the end of the
  list: with four popular items and \<open>n = -1\<close>, \<^verbatim>\<open>recommend\<close> returns one entry.
\<close>

theorem recommend_negative_count_counterexample:
  "map entry_pair (recommend example_externals
       (example_hybrid [(''a'', 0.5), (''b'', 0.9), (''c'', 0.5), (''d'', 0.1)]) ''u'' [] (- 1) 0)
     = [Some (''b'', 0.09)]
   \<and> \<not> int (length (recommend example_externals
       (example_hybrid [(''a'', 0.5), (''b'', 0.9), (''c'', 0.5), (''d'', 0.1)]) ''u'' [] (- 1) 0))
         \<le> - 1"
  by (simp add: recommend_def hybrid_scores_def example_hybrid_def example_externals_def
      recommend_for_user_def get_popular_items_def entry_pair_def recommendation_entry_def
      eval_defs)

end
